theory Spec2Isabelle
  imports Main "HOL-Library.Multiset"
begin

section \<open>Data model (backend/server.py, the pydantic models)\<close>

text \<open>
  Strings are byte lists (UTF-8), timestamps are natural numbers (a count of clock ticks
  since the epoch). The values returned by \<^verbatim>\<open>uuid.uuid4()\<close> and
  \<^verbatim>\<open>datetime.now(timezone.utc)\<close> are produced outside the program, so every
  function that calls them takes the value obtained as an argument.
\<close>

type_synonym datetime = nat

record user =
  u_id :: string
  u_username :: string
  u_password_hash :: string
  u_is_admin :: bool
  u_created_at :: datetime

record user_create =
  uc_username :: string
  uc_password :: string

record message =
  m_id :: string
  m_chat_id :: string
  m_sender :: string
  m_content :: string
  m_message_type :: string
  m_image_url :: "string option"
  m_timestamp :: datetime
  m_is_admin_response :: bool

record message_create =
  mc_content :: string
  mc_message_type :: string

record chat =
  c_id :: string
  c_user_id :: string
  c_username :: string
  c_created_at :: datetime
  c_last_message_at :: datetime
  c_admin_active :: bool

text \<open>\<^verbatim>\<open>HTTPException(status_code=..., detail=...)\<close>\<close>

datatype http_error = HTTPException nat string

text \<open>
  What the handlers act on: the document store, the uploads directory and the hosted model.
  A collection is the list of its documents in insertion order; the uploads directory maps
  a file name to the bytes written; \<open>llm_calls\<close> lists, in order, the calls submitted to
  the hosted model, each with its session prefix and prompt.
\<close>

record world =
  users :: "user list"
  chats :: "chat list"
  messages :: "message list"
  uploads :: "string \<Rightarrow> string option"
  llm_calls :: "(string \<times> string) list"

section \<open>Credentials\<close>

text \<open>
  The PyJWT library is outside the repository. A token is modelled by what it carries: the
  payload, an optional expiry claim and the key it was signed with. Decoding with a key
  fails with \<open>InvalidTokenError\<close> when the key differs and with
  \<open>ExpiredSignatureError\<close> when the expiry claim is not in the future.
\<close>

record payload =
  p_user_id :: string
  p_is_admin :: bool

record token =
  t_payload :: payload
  t_exp :: "datetime option"
  t_key :: string

datatype jwt_error = ExpiredSignatureError | InvalidTokenError

definition jwt_encode :: "payload \<Rightarrow> string \<Rightarrow> token" where
  "jwt_encode p key = \<lparr>t_payload = p, t_exp = None, t_key = key\<rparr>"

definition jwt_decode :: "datetime \<Rightarrow> token \<Rightarrow> string \<Rightarrow> jwt_error + payload" where
  "jwt_decode now tok key =
     (if t_key tok \<noteq> key then Inl InvalidTokenError
      else (case t_exp tok of
              None \<Rightarrow> Inr (t_payload tok)
            | Some e \<Rightarrow> if e \<le> now then Inl ExpiredSignatureError else Inr (t_payload tok)))"

definition JWT_SECRET :: string where
  "JWT_SECRET = ''sebastian_michaelis_secret_key''"

text \<open>
  \<^verbatim>\<open>hashlib.sha256(password.encode()).hexdigest()\<close>: the digest function belongs to the
  standard library and is a parameter.
\<close>

definition hash_password :: "(string \<Rightarrow> string) \<Rightarrow> string \<Rightarrow> string" where
  "hash_password sha256_hexdigest password = sha256_hexdigest password"

definition verify_password :: "(string \<Rightarrow> string) \<Rightarrow> string \<Rightarrow> string \<Rightarrow> bool" where
  "verify_password sha256_hexdigest password hashed =
     (hash_password sha256_hexdigest password = hashed)"

definition create_token :: "string \<Rightarrow> bool \<Rightarrow> token" where
  "create_token user_id is_admin =
     jwt_encode \<lparr>p_user_id = user_id, p_is_admin = is_admin\<rparr> JWT_SECRET"

definition verify_token :: "datetime \<Rightarrow> token \<Rightarrow> http_error + payload" where
  "verify_token now credentials =
     (case jwt_decode now credentials JWT_SECRET of
        Inr p \<Rightarrow> Inr p
      | Inl ExpiredSignatureError \<Rightarrow> Inl (HTTPException 401 ''Token expired'')
      | Inl InvalidTokenError \<Rightarrow> Inl (HTTPException 401 ''Invalid token''))"

section \<open>Store queries\<close>

text \<open>\<^verbatim>\<open>collection.find_one(filter)\<close>: the first matching document.\<close>

definition find_one :: "('a \<Rightarrow> bool) \<Rightarrow> 'a list \<Rightarrow> 'a option" where
  "find_one P xs = List.find P xs"

text \<open>
  \<^verbatim>\<open>db.messages.find({"chat_id": chat_id}).sort("timestamp", 1).to_list(n)\<close> and
  \<^verbatim>\<open>db.messages.find({"chat_id": chat_id}).sort("timestamp", -1).limit(n).to_list(n)\<close>.
  Among documents with equal timestamps the ascending sort keeps insertion order and the
  descending sort reverses it.
\<close>

definition find_messages_asc :: "world \<Rightarrow> string \<Rightarrow> nat \<Rightarrow> message list" where
  "find_messages_asc w chat_id n =
     take n (sort_key m_timestamp (filter (\<lambda>m. m_chat_id m = chat_id) (messages w)))"

definition find_messages_desc :: "world \<Rightarrow> string \<Rightarrow> nat \<Rightarrow> message list" where
  "find_messages_desc w chat_id n =
     take n (rev (sort_key m_timestamp (filter (\<lambda>m. m_chat_id m = chat_id) (messages w))))"

text \<open>
  \<^verbatim>\<open>collection.update_one(filter, {"$set": ...})\<close>: the first matching document is
  rewritten, the others are left as they are.
\<close>

fun update_one :: "('a \<Rightarrow> bool) \<Rightarrow> ('a \<Rightarrow> 'a) \<Rightarrow> 'a list \<Rightarrow> 'a list" where
  "update_one P f [] = []"
| "update_one P f (x # xs) = (if P x then f x # xs else x # update_one P f xs)"

section \<open>Python string helpers\<close>

text \<open>\<^verbatim>\<open>sep.join(parts)\<close>\<close>

fun join :: "string \<Rightarrow> string list \<Rightarrow> string" where
  "join sep [] = []"
| "join sep [x] = x"
| "join sep (x # y # ys) = x @ sep @ join sep (y # ys)"

text \<open>\<^verbatim>\<open>s.split(c)\<close> for a one-character separator: never the empty list.\<close>

fun split_chr :: "char \<Rightarrow> string \<Rightarrow> string list" where
  "split_chr c [] = [[]]"
| "split_chr c (x # xs) =
     (if x = c then [] # split_chr c xs
      else (case split_chr c xs of
              [] \<Rightarrow> [[x]]
            | y # ys \<Rightarrow> (x # y) # ys))"

text \<open>\<^verbatim>\<open>s.startswith(p)\<close>\<close>

definition startswith :: "string \<Rightarrow> string \<Rightarrow> bool" where
  "startswith s p = (take (length p) s = p)"

text \<open>
  The characters for which \<^verbatim>\<open>str.isspace\<close> holds, each as the bytes that encode it:
  U+0009 to U+000D, U+001C to U+0020, U+0085, U+00A0, U+1680, U+2000 to U+200A, U+2028,
  U+2029, U+202F, U+205F and U+3000.
\<close>

definition whitespace :: "string list" where
  "whitespace =
     [[CHR 0x09], [CHR 0x0A], [CHR 0x0B], [CHR 0x0C], [CHR 0x0D],
      [CHR 0x1C], [CHR 0x1D], [CHR 0x1E], [CHR 0x1F], [CHR 0x20],
      [CHR 0xC2, CHR 0x85], [CHR 0xC2, CHR 0xA0],
      [CHR 0xE1, CHR 0x9A, CHR 0x80],
      [CHR 0xE2, CHR 0x80, CHR 0x80], [CHR 0xE2, CHR 0x80, CHR 0x81],
      [CHR 0xE2, CHR 0x80, CHR 0x82], [CHR 0xE2, CHR 0x80, CHR 0x83],
      [CHR 0xE2, CHR 0x80, CHR 0x84], [CHR 0xE2, CHR 0x80, CHR 0x85],
      [CHR 0xE2, CHR 0x80, CHR 0x86], [CHR 0xE2, CHR 0x80, CHR 0x87],
      [CHR 0xE2, CHR 0x80, CHR 0x88], [CHR 0xE2, CHR 0x80, CHR 0x89],
      [CHR 0xE2, CHR 0x80, CHR 0x8A],
      [CHR 0xE2, CHR 0x80, CHR 0xA8], [CHR 0xE2, CHR 0x80, CHR 0xA9],
      [CHR 0xE2, CHR 0x80, CHR 0xAF], [CHR 0xE2, CHR 0x81, CHR 0x9F],
      [CHR 0xE3, CHR 0x80, CHR 0x80]]"

text \<open>
  \<^verbatim>\<open>s.lstrip(chars)\<close> and \<^verbatim>\<open>s.rstrip(chars)\<close>: leading (trailing) characters are
  removed as long as they belong to \<open>chars\<close>. In well-formed UTF-8 the encoding of a
  character neither begins nor ends inside the encoding of another one, so removing the
  encodings from the bytes removes the characters.
\<close>

function lstrip :: "string list \<Rightarrow> string \<Rightarrow> string" where
  "lstrip chars s =
     (case find_one (\<lambda>c. c \<noteq> [] \<and> startswith s c) chars of
        None \<Rightarrow> s
      | Some c \<Rightarrow> lstrip chars (drop (length c) s))"
  by pat_completeness auto
termination
proof (relation "measure (\<lambda>(chars, s). length s)")
  show "wf (measure (\<lambda>(chars, s). length s))" by simp
next
  fix chars :: "string list" and s c :: string
  assume "find_one (\<lambda>c. c \<noteq> [] \<and> startswith s c) chars = Some c"
  hence "c \<noteq> []" and "take (length c) s = c"
    by (auto simp: find_one_def find_Some_iff startswith_def)
  hence "s \<noteq> []" by auto
  with \<open>c \<noteq> []\<close>
  show "((chars, drop (length c) s), (chars, s)) \<in> measure (\<lambda>(chars, s). length s)"
    by simp
qed

declare lstrip.simps [simp del]

definition rstrip :: "string list \<Rightarrow> string \<Rightarrow> string" where
  "rstrip chars s = rev (lstrip (map rev chars) (rev s))"

text \<open>\<^verbatim>\<open>s.strip()\<close>: white space is removed from both ends.\<close>

definition strip :: "string \<Rightarrow> string" where
  "strip s = rstrip whitespace (lstrip whitespace s)"

section \<open>Persona response generator\<close>

text \<open>
  The hosted model is outside the repository. \<^verbatim>\<open>chat.send_message(user_message)\<close>
  either returns a text or raises; the chat object is built from the constant persona
  instruction, the constant model name and a session id computed from
  \<^verbatim>\<open>message[:50]\<close>, so the call is a function of that prefix and of the prompt.
\<close>

datatype llm_failure = Timeout | MalformedResponse | UpstreamError

datatype llm_outcome = LlmText string | LlmRaises llm_failure

type_synonym llm = "string \<Rightarrow> string \<Rightarrow> llm_outcome"

text \<open>The literal returned by the \<^verbatim>\<open>except Exception\<close> branch, byte for byte.\<close>

definition fallback_response :: string where
  "fallback_response =
     ''*si inchina con grazia* Mi scuso profondamente, mio signore. '' @
     ''Un momentaneo intoppo nelle mie facolt'' @
     [CHR 0xE2, CHR 0x88, CHR 0x9A, CHR 0xE2, CHR 0x80, CHR 0xA0] @
     '' mi impedisce di rispondere come meritiate. '' @
     ''Permettetemi un istante per recuperare la mia consueta perfezione.''"

text \<open>
  \<^verbatim>\<open>get_sebastian_ai_response(message, chat_history, image_url)\<close>. A history entry
  \<^verbatim>\<open>{"sender": s, "content": c}\<close> is the pair \<open>(s, c)\<close>. Next to the reply, the
  function returns the log of the calls made to the hosted model, each with the session
  prefix and the prompt submitted.
\<close>

definition get_sebastian_ai_response ::
  "llm \<Rightarrow> string \<Rightarrow> (string \<times> string) list \<Rightarrow> string option \<Rightarrow> string \<times> (string \<times> string) list" where
  "get_sebastian_ai_response model message chat_history image_url =
     (let session = take 50 message;
          prompt0 = message;
          prompt1 =
            (case image_url of
               None \<Rightarrow> prompt0
             | Some u \<Rightarrow>
                 if u = [] then prompt0
                 else prompt0 @ [CHR 0x0A, CHR 0x0A] @
                      ''*L'utente ha condiviso un'immagine: '' @ u @ ''*'' @ [CHR 0x0A] @
                      ''Ti prego di commentare questa immagine con il tuo stile elegante e raffinato, mio caro Sebastian.'');
          prompt2 =
            (if chat_history \<noteq> [] then
               let context =
                     join [CHR 0x0A]
                       (map (\<lambda>(sender, content).
                               (if sender = ''user'' then ''Utente'' else ''Sebastian'') @
                               '': '' @ content)
                            (drop (length chat_history - 6) chat_history))
               in ''Contesto della conversazione:'' @ [CHR 0x0A] @ context @
                  [CHR 0x0A, CHR 0x0A] @ ''Nuovo messaggio: '' @ prompt1
             else prompt1)
      in (case model session prompt2 of
            LlmText response \<Rightarrow> (strip response, [(session, prompt2)])
          | LlmRaises e \<Rightarrow> (fallback_response, [(session, prompt2)])))"

section \<open>POST /register, POST /login, POST /admin/login\<close>

record auth_response =
  ar_token :: token
  ar_id :: string
  ar_username :: string
  ar_is_admin :: bool

definition register ::
  "world \<Rightarrow> (string \<Rightarrow> string) \<Rightarrow> user_create \<Rightarrow> string \<Rightarrow> datetime \<Rightarrow>
   (http_error + auth_response) \<times> world" where
  "register w sha256_hexdigest usr new_uuid new_now =
     (case find_one (\<lambda>u. u_username u = uc_username usr) (users w) of
        Some existing_user \<Rightarrow> (Inl (HTTPException 400 ''Username already exists''), w)
      | None \<Rightarrow>
          let user_obj = \<lparr>u_id = new_uuid,
                          u_username = uc_username usr,
                          u_password_hash = hash_password sha256_hexdigest (uc_password usr),
                          u_is_admin = False,
                          u_created_at = new_now\<rparr>;
              w1 = w\<lparr>users := users w @ [user_obj]\<rparr>
          in (Inr \<lparr>ar_token = create_token (u_id user_obj) (u_is_admin user_obj),
                   ar_id = u_id user_obj,
                   ar_username = u_username user_obj,
                   ar_is_admin = u_is_admin user_obj\<rparr>, w1))"

definition login ::
  "world \<Rightarrow> (string \<Rightarrow> string) \<Rightarrow> user_create \<Rightarrow> (http_error + auth_response) \<times> world" where
  "login w sha256_hexdigest usr =
     (case find_one (\<lambda>u. u_username u = uc_username usr) (users w) of
        None \<Rightarrow> (Inl (HTTPException 401 ''Invalid credentials''), w)
      | Some db_user \<Rightarrow>
          if \<not> verify_password sha256_hexdigest (uc_password usr) (u_password_hash db_user)
          then (Inl (HTTPException 401 ''Invalid credentials''), w)
          else (Inr \<lparr>ar_token = create_token (u_id db_user) (u_is_admin db_user),
                     ar_id = u_id db_user,
                     ar_username = u_username db_user,
                     ar_is_admin = u_is_admin db_user\<rparr>, w))"

definition admin_login ::
  "world \<Rightarrow> (string \<Rightarrow> string) \<Rightarrow> user_create \<Rightarrow> string \<Rightarrow> datetime \<Rightarrow>
   (http_error + auth_response) \<times> world" where
  "admin_login w sha256_hexdigest usr new_uuid new_now =
     (if uc_username usr = ''admin'' \<and> uc_password usr = ''sebastian_admin'' then
        (case find_one (\<lambda>u. u_username u = ''admin'') (users w) of
           Some admin_user \<Rightarrow>
             (Inr \<lparr>ar_token = create_token (u_id admin_user) True,
                   ar_id = u_id admin_user,
                   ar_username = u_username admin_user,
                   ar_is_admin = True\<rparr>, w)
         | None \<Rightarrow>
             let admin_obj = \<lparr>u_id = new_uuid,
                              u_username = ''admin'',
                              u_password_hash = hash_password sha256_hexdigest ''sebastian_admin'',
                              u_is_admin = True,
                              u_created_at = new_now\<rparr>;
                 w1 = w\<lparr>users := users w @ [admin_obj]\<rparr>;
                 admin_user = admin_obj
             in (Inr \<lparr>ar_token = create_token (u_id admin_user) True,
                      ar_id = u_id admin_user,
                      ar_username = u_username admin_user,
                      ar_is_admin = True\<rparr>, w1))
      else (Inl (HTTPException 401 ''Invalid admin credentials''), w))"

section \<open>GET /chat\<close>

text \<open>
  \<^verbatim>\<open>user_data["username"]\<close> on a user id that the store does not hold subscripts
  \<^verbatim>\<open>None\<close>; the framework answers the uncaught error with status 500.
\<close>

definition get_or_create_chat ::
  "world \<Rightarrow> datetime \<Rightarrow> token \<Rightarrow> string \<Rightarrow> datetime \<Rightarrow> (http_error + chat) \<times> world" where
  "get_or_create_chat w now credentials new_uuid new_now =
     (case verify_token now credentials of
        Inl e \<Rightarrow> (Inl e, w)
      | Inr usr \<Rightarrow>
          (case find_one (\<lambda>c. c_user_id c = p_user_id usr) (chats w) of
             Some existing_chat \<Rightarrow> (Inr existing_chat, w)
           | None \<Rightarrow>
               (case find_one (\<lambda>u. u_id u = p_user_id usr) (users w) of
                  None \<Rightarrow> (Inl (HTTPException 500 ''Internal Server Error''), w)
                | Some user_data \<Rightarrow>
                    let chat_obj = \<lparr>c_id = new_uuid,
                                    c_user_id = p_user_id usr,
                                    c_username = u_username user_data,
                                    c_created_at = new_now,
                                    c_last_message_at = new_now,
                                    c_admin_active = False\<rparr>
                    in (Inr chat_obj, w\<lparr>chats := chats w @ [chat_obj]\<rparr>))))"

section \<open>GET /chat/{chat_id}/messages\<close>

definition get_messages ::
  "world \<Rightarrow> datetime \<Rightarrow> token \<Rightarrow> string \<Rightarrow> (http_error + message list) \<times> world" where
  "get_messages w now credentials chat_id =
     (case verify_token now credentials of
        Inl e \<Rightarrow> (Inl e, w)
      | Inr user \<Rightarrow> (Inr (find_messages_asc w chat_id 1000), w))"

section \<open>POST /chat/{chat_id}/message\<close>

text \<open>
  \<open>um_uuid\<close>, \<open>um_now\<close> are the id and timestamp drawn for the user's message,
  \<open>upd_now\<close> the time written to the chat, \<open>bm_uuid\<close>, \<open>bm_now\<close> the id and
  timestamp drawn for the reply. The handler answers \<^verbatim>\<open>{"success": True}\<close>. The
  calls that the generator submits to the hosted model are added to \<open>llm_calls\<close>.
\<close>

definition send_message ::
  "world \<Rightarrow> datetime \<Rightarrow> token \<Rightarrow> string \<Rightarrow> message_create \<Rightarrow>
   string \<Rightarrow> datetime \<Rightarrow> datetime \<Rightarrow> llm \<Rightarrow> string \<Rightarrow> datetime \<Rightarrow>
   (http_error + bool) \<times> world" where
  "send_message w now credentials chat_id msg um_uuid um_now upd_now model bm_uuid bm_now =
     (case verify_token now credentials of
        Inl e \<Rightarrow> (Inl e, w)
      | Inr usr \<Rightarrow>
          (case find_one (\<lambda>c. c_id c = chat_id) (chats w) of
             None \<Rightarrow> (Inl (HTTPException 404 ''Chat not found''), w)
           | Some cht \<Rightarrow>
               let user_message = \<lparr>m_id = um_uuid,
                                   m_chat_id = chat_id,
                                   m_sender = ''user'',
                                   m_content = mc_content msg,
                                   m_message_type = mc_message_type msg,
                                   m_image_url = None,
                                   m_timestamp = um_now,
                                   m_is_admin_response = False\<rparr>;
                   w1 = w\<lparr>messages := messages w @ [user_message]\<rparr>;
                   w2 = w1\<lparr>chats := update_one (\<lambda>c. c_id c = chat_id)
                                          (\<lambda>c. c\<lparr>c_last_message_at := upd_now\<rparr>) (chats w1)\<rparr>
               in if \<not> c_admin_active cht then
                    let recent_messages = find_messages_desc w2 chat_id 10;
                        chat_history = map (\<lambda>m. (m_sender m, m_content m))
                                           (rev (butlast recent_messages));
                        answer = get_sebastian_ai_response model (mc_content msg) chat_history
                                   (m_image_url user_message);
                        sebastian_response = fst answer;
                        bot_message = \<lparr>m_id = bm_uuid,
                                       m_chat_id = chat_id,
                                       m_sender = ''sebastian'',
                                       m_content = sebastian_response,
                                       m_message_type = ''text'',
                                       m_image_url = None,
                                       m_timestamp = bm_now,
                                       m_is_admin_response = False\<rparr>
                    in (Inr True, w2\<lparr>messages := messages w2 @ [bot_message],
                                     llm_calls := llm_calls w2 @ snd answer\<rparr>)
                  else (Inr True, w2)))"

section \<open>POST /chat/{chat_id}/upload\<close>

text \<open>The uploaded part: its file name, its declared content type and its bytes.\<close>

record upload_file =
  uf_filename :: string
  uf_content_type :: string
  uf_content :: string

text \<open>
  \<^verbatim>\<open>file.filename.split('.')[-1] if '.' in file.filename else 'jpg'\<close>: the text after
  the last dot of the client's file name, taken as it is.
\<close>

definition file_extension :: "string \<Rightarrow> string" where
  "file_extension filename =
     (if CHR ''.'' \<in> set filename then last (split_chr CHR ''.'' filename) else ''jpg'')"

text \<open>
  \<^verbatim>\<open>aiofiles.open(UPLOADS_DIR / unique_filename, 'wb')\<close> creates the file in the
  uploads directory, which exists since start-up. It raises when the name holds a slash
  (the path then leads through a directory that does not exist), when it holds a NUL byte,
  and when it is longer than the 255 bytes that the file system allows for a name. The
  handler does not catch the error: the framework answers with status 500, and neither a
  file nor a document has been written. Other failures of the file system (a full disk,
  missing permissions) are not modelled.
\<close>

definition valid_file_name :: "string \<Rightarrow> bool" where
  "valid_file_name name =
     (CHR ''/'' \<notin> set name \<and> CHR 0x00 \<notin> set name \<and> length name \<le> 255)"

text \<open>The caption used when the form field is empty, byte for byte.\<close>

definition caption_placeholder :: string where
  "caption_placeholder =
     [CHR 0xEF, CHR 0xA3, CHR 0xBF, CHR 0xC3, CHR 0xBC, CHR 0xC3, CHR 0xAC,
      CHR 0xE2, CHR 0x88, CHR 0x91] @ '' Immagine condivisa''"

text \<open>
  \<open>file_uuid\<close> is the id drawn for the file name; the other drawn values are as in
  \<open>send_message\<close>. The handler answers
  \<^verbatim>\<open>{"success": True, "image_url": image_url}\<close>.
\<close>

definition upload_image ::
  "world \<Rightarrow> datetime \<Rightarrow> token \<Rightarrow> string \<Rightarrow> upload_file \<Rightarrow> string \<Rightarrow>
   string \<Rightarrow> string \<Rightarrow> datetime \<Rightarrow> datetime \<Rightarrow> llm \<Rightarrow> string \<Rightarrow> datetime \<Rightarrow>
   (http_error + bool \<times> string) \<times> world" where
  "upload_image w now credentials chat_id file caption
                file_uuid um_uuid um_now upd_now model bm_uuid bm_now =
     (case verify_token now credentials of
        Inl e \<Rightarrow> (Inl e, w)
      | Inr usr \<Rightarrow>
          if \<not> startswith (uf_content_type file) ''image/'' then
            (Inl (HTTPException 400 ''Only image files are allowed''), w)
          else
            let unique_filename = file_uuid @ ''.'' @ file_extension (uf_filename file) in
            if \<not> valid_file_name unique_filename then
              (Inl (HTTPException 500 ''Internal Server Error''), w)
            else
            let w0 = w\<lparr>uploads := (uploads w)(unique_filename \<mapsto> uf_content file)\<rparr>;
                image_url = ''/uploads/'' @ unique_filename
            in (case find_one (\<lambda>c. c_id c = chat_id) (chats w0) of
                  None \<Rightarrow> (Inl (HTTPException 404 ''Chat not found''), w0)
                | Some cht \<Rightarrow>
                    let user_message = \<lparr>m_id = um_uuid,
                                        m_chat_id = chat_id,
                                        m_sender = ''user'',
                                        m_content = (if caption \<noteq> [] then caption
                                                     else caption_placeholder),
                                        m_message_type = ''image'',
                                        m_image_url = Some image_url,
                                        m_timestamp = um_now,
                                        m_is_admin_response = False\<rparr>;
                        w1 = w0\<lparr>messages := messages w0 @ [user_message]\<rparr>;
                        w2 = w1\<lparr>chats := update_one (\<lambda>c. c_id c = chat_id)
                                               (\<lambda>c. c\<lparr>c_last_message_at := upd_now\<rparr>)
                                               (chats w1)\<rparr>
                    in if \<not> c_admin_active cht then
                         let recent_messages = find_messages_desc w2 chat_id 10;
                             chat_history = map (\<lambda>m. (m_sender m, m_content m))
                                                (rev (butlast recent_messages));
                             image_prompt0 = ''L'utente ha condiviso un'immagine'';
                             image_prompt =
                               (if caption \<noteq> [] then
                                  image_prompt0 @ '' con la didascalia: '' @ [CHR 0x27] @
                                  caption @ [CHR 0x27]
                                else image_prompt0);
                             answer = get_sebastian_ai_response model image_prompt chat_history
                                        (Some image_url);
                             sebastian_response = fst answer;
                             bot_message = \<lparr>m_id = bm_uuid,
                                            m_chat_id = chat_id,
                                            m_sender = ''sebastian'',
                                            m_content = sebastian_response,
                                            m_message_type = ''text'',
                                            m_image_url = None,
                                            m_timestamp = bm_now,
                                            m_is_admin_response = False\<rparr>
                         in (Inr (True, image_url),
                             w2\<lparr>messages := messages w2 @ [bot_message],
                                llm_calls := llm_calls w2 @ snd answer\<rparr>)
                       else (Inr (True, image_url), w2)))"

section \<open>The administrator's routes\<close>

definition get_all_chats ::
  "world \<Rightarrow> datetime \<Rightarrow> token \<Rightarrow> (http_error + chat list) \<times> world" where
  "get_all_chats w now credentials =
     (case verify_token now credentials of
        Inl e \<Rightarrow> (Inl e, w)
      | Inr usr \<Rightarrow>
          if \<not> p_is_admin usr then (Inl (HTTPException 403 ''Admin access required''), w)
          else (Inr (take 1000 (rev (sort_key c_last_message_at (chats w)))), w))"

definition admin_respond ::
  "world \<Rightarrow> datetime \<Rightarrow> token \<Rightarrow> string \<Rightarrow> string \<Rightarrow> string \<Rightarrow> datetime \<Rightarrow> datetime \<Rightarrow>
   (http_error + bool) \<times> world" where
  "admin_respond w now credentials chat_id content am_uuid am_now upd_now =
     (case verify_token now credentials of
        Inl e \<Rightarrow> (Inl e, w)
      | Inr usr \<Rightarrow>
          if \<not> p_is_admin usr then (Inl (HTTPException 403 ''Admin access required''), w)
          else
            let admin_message = \<lparr>m_id = am_uuid,
                                 m_chat_id = chat_id,
                                 m_sender = ''sebastian'',
                                 m_content = content,
                                 m_message_type = ''text'',
                                 m_image_url = None,
                                 m_timestamp = am_now,
                                 m_is_admin_response = True\<rparr>;
                w1 = w\<lparr>messages := messages w @ [admin_message]\<rparr>;
                w2 = w1\<lparr>chats := update_one (\<lambda>c. c_id c = chat_id)
                                       (\<lambda>c. c\<lparr>c_last_message_at := upd_now\<rparr>) (chats w1)\<rparr>
            in (Inr True, w2))"

text \<open>The handler answers \<^verbatim>\<open>{"admin_active": new_status}\<close>.\<close>

definition toggle_admin_active ::
  "world \<Rightarrow> datetime \<Rightarrow> token \<Rightarrow> string \<Rightarrow> (http_error + bool) \<times> world" where
  "toggle_admin_active w now credentials chat_id =
     (case verify_token now credentials of
        Inl e \<Rightarrow> (Inl e, w)
      | Inr usr \<Rightarrow>
          if \<not> p_is_admin usr then (Inl (HTTPException 403 ''Admin access required''), w)
          else
            (case find_one (\<lambda>c. c_id c = chat_id) (chats w) of
               None \<Rightarrow> (Inl (HTTPException 404 ''Chat not found''), w)
             | Some cht \<Rightarrow>
                 let new_status = (\<not> c_admin_active cht)
                 in (Inr new_status,
                     w\<lparr>chats := update_one (\<lambda>c. c_id c = chat_id)
                                   (\<lambda>c. c\<lparr>c_admin_active := new_status\<rparr>) (chats w)\<rparr>)))"

section \<open>Example states\<close>

text \<open>Concrete tokens, messages and stores on which the theorems below are instantiated.\<close>

definition ex_token :: token where
  "ex_token = create_token ''u1'' False"

definition ex_msg :: "string \<Rightarrow> string \<Rightarrow> string \<Rightarrow> string \<Rightarrow> datetime \<Rightarrow> message" where
  "ex_msg i c s t ts =
     \<lparr>m_id = i, m_chat_id = c, m_sender = s, m_content = t, m_message_type = ''text'',
      m_image_url = None, m_timestamp = ts, m_is_admin_response = False\<rparr>"

definition ex_world_a :: world where
  "ex_world_a =
     \<lparr>users = [], chats = [],
      messages = [ex_msg ''m1'' ''c1'' ''user'' ''x'' 5,
                  ex_msg ''m2'' ''c1'' ''sebastian'' ''y'' 2,
                  ex_msg ''m3'' ''c2'' ''user'' ''z'' 1,
                  ex_msg ''m4'' ''c1'' ''user'' ''w'' 9],
      uploads = Map.empty, llm_calls = []\<rparr>"

definition ex_world_b :: world where
  "ex_world_b =
     \<lparr>users = [], chats = [],
      messages = [ex_msg ''m4'' ''c1'' ''user'' ''w'' 9,
                  ex_msg ''m3'' ''c2'' ''user'' ''z'' 1,
                  ex_msg ''m1'' ''c1'' ''user'' ''x'' 5,
                  ex_msg ''m2'' ''c1'' ''sebastian'' ''y'' 2],
      uploads = Map.empty, llm_calls = []\<rparr>"

definition ex_admin_token :: token where
  "ex_admin_token = create_token ''a1'' True"

definition ex_chat :: "string \<Rightarrow> string \<Rightarrow> bool \<Rightarrow> chat" where
  "ex_chat i u a =
     \<lparr>c_id = i, c_user_id = u, c_username = ''name-'' @ u, c_created_at = 0,
      c_last_message_at = 0, c_admin_active = a\<rparr>"

definition ex_world_c :: world where
  "ex_world_c =
     \<lparr>users = [],
      chats = [ex_chat ''c1'' ''u2'' False, ex_chat ''c2'' ''u3'' True],
      messages = [ex_msg ''m1'' ''c1'' ''sebastian'' ''hello'' 1],
      uploads = Map.empty, llm_calls = []\<rparr>"

definition ex_file :: upload_file where
  "ex_file = \<lparr>uf_filename = ''cat.png'', uf_content_type = ''image/png'', uf_content = ''PNGDATA''\<rparr>"

definition ex_message_create :: message_create where
  "ex_message_create = \<lparr>mc_content = ''hi'', mc_message_type = ''text''\<rparr>"

text \<open>A hosted model that answers with the prompt it was given, and one that always fails.\<close>

definition echo_model :: llm where
  "echo_model s p = LlmText p"


definition ex_world_d :: world where
  "ex_world_d =
     \<lparr>users = [],
      chats = [ex_chat ''c1'' ''u2'' False],
      messages = [ex_msg ''p1'' ''c1'' ''user'' ''one'' 1,
                  ex_msg ''p2'' ''c1'' ''sebastian'' ''two'' 2,
                  ex_msg ''p3'' ''c1'' ''user'' ''three'' 3,
                  ex_msg ''p4'' ''c1'' ''sebastian'' ''four'' 4,
                  ex_msg ''p5'' ''c1'' ''user'' ''five'' 5,
                  ex_msg ''p6'' ''c1'' ''sebastian'' ''six'' 6,
                  ex_msg ''p7'' ''c1'' ''user'' ''seven'' 7,
                  ex_msg ''p8'' ''c1'' ''sebastian'' ''eight'' 8],
      uploads = Map.empty, llm_calls = []\<rparr>"

definition ex_text_file :: upload_file where
  "ex_text_file = \<lparr>uf_filename = ''notes.txt'', uf_content_type = ''text/plain'', uf_content = ''hello''\<rparr>"

definition ex_sha :: "string \<Rightarrow> string" where
  "ex_sha s = ''digest-of-'' @ s"

definition ex_alice :: user_create where
  "ex_alice = \<lparr>uc_username = ''alice'', uc_password = ''pw1''\<rparr>"

definition ex_admin_login :: user_create where
  "ex_admin_login = \<lparr>uc_username = ''admin'', uc_password = ''sebastian_admin''\<rparr>"

definition ex_admin_user :: user where
  "ex_admin_user = \<lparr>u_id = ''a1'', u_username = ''admin'',
                     u_password_hash = ''digest-of-sebastian_admin'',
                     u_is_admin = True, u_created_at = 1\<rparr>"

definition ex_bob :: user where
  "ex_bob = \<lparr>u_id = ''b7'', u_username = ''bob'', u_password_hash = ''digest-of-pw2'',
              u_is_admin = False, u_created_at = 2\<rparr>"

definition ex_admin_resp :: auth_response where
  "ex_admin_resp = \<lparr>ar_token = create_token ''a1'' True, ar_id = ''a1'',
                     ar_username = ''admin'', ar_is_admin = True\<rparr>"

definition ex_world_e :: world where
  "ex_world_e = ex_world_c\<lparr>users := [ex_admin_user]\<rparr>"

definition ex_world_f :: world where
  "ex_world_f = ex_world_c\<lparr>users := [ex_admin_user, ex_bob]\<rparr>"


text \<open>An image part whose file name has a slash after its last dot.\<close>

definition ex_slash_file :: upload_file where
  "ex_slash_file = \<lparr>uf_filename = ''a./b'', uf_content_type = ''image/png'', uf_content = ''PNGDATA''\<rparr>"

text \<open>A registration under the name "admin", and the store after it.\<close>

definition ex_mallory :: user_create where
  "ex_mallory = \<lparr>uc_username = ''admin'', uc_password = ''mallory-pw''\<rparr>"

definition ex_mallory_user :: user where
  "ex_mallory_user = \<lparr>u_id = ''m1'', u_username = ''admin'',
                       u_password_hash = ''digest-of-mallory-pw'',
                       u_is_admin = False, u_created_at = 1\<rparr>"

definition ex_world_g :: world where
  "ex_world_g = ex_world_c\<lparr>users := [ex_mallory_user]\<rparr>"

section \<open>Properties\<close>

lemma map_sort_key_eq_sort: "map f (sort_key f xs) = sort (map f xs)"
proof -
  have "mset (map f (sort_key f xs)) = mset (map f xs)"
    by simp
  moreover have "sorted (map f (sort_key f xs))"
    by (rule sorted_sort_key)
  ultimately show ?thesis
    by (metis properties_for_sort)
qed

lemma map_sort_key_mset:
  assumes "mset xs = mset ys"
  shows "map f (sort_key f xs) = map f (sort_key f ys)"
proof -
  have "mset (map f xs) = mset (map f ys)"
    using assms by (metis mset_map)
  hence "sort (map f xs) = sort (map f ys)"
    by (metis properties_for_sort sorted_sort mset_sort)
  thus ?thesis
    by (simp add: map_sort_key_eq_sort)
qed

lemma sorted_take_before_drop:
  assumes "sorted (map f xs)"
  shows "\<forall>a\<in>set (take n xs). \<forall>b\<in>set (drop n xs). f a \<le> f b"
proof -
  have "sorted (map f (take n xs) @ map f (drop n xs))"
    using assms by (metis append_take_drop_id map_append)
  thus ?thesis
    by (auto simp: sorted_append)
qed

lemma ex_token_valid:
  "verify_token 0 ex_token = Inr \<lparr>p_user_id = ''u1'', p_is_admin = False\<rparr>"
  by (simp add: ex_token_def create_token_def jwt_encode_def verify_token_def jwt_decode_def)

subsection \<open>Listing messages\<close>

text \<open>
  Claim C8. For a caller with a valid token, listing a chat's messages answers with a list
  \<open>ms\<close> whose timestamps never decrease, of 1000 items or of all the chat's messages
  when there are fewer. The list holds the chat's stored messages and no others, each as
  often as it is stored: with the messages \<open>rest\<close> left out by the cap it makes up the
  chat's messages exactly, and no message left out is older than a listed one. A store
  holding the same messages inserted in another order gives the same sequence of
  timestamps.
\<close>

theorem get_messages_ascending_capped:
  assumes tok: "verify_token now credentials = Inr usr"
      and perm: "mset (messages w2) = mset (messages w)"
  shows "\<exists>ms ms2 rest. get_messages w now credentials chat_id = (Inr ms, w)
           \<and> get_messages w2 now credentials chat_id = (Inr ms2, w2)
           \<and> sorted (map m_timestamp ms)
           \<and> length ms = min 1000 (length (filter (\<lambda>m. m_chat_id m = chat_id) (messages w)))
           \<and> set ms \<subseteq> {m \<in> set (messages w). m_chat_id m = chat_id}
           \<and> mset (ms @ rest) = mset (filter (\<lambda>m. m_chat_id m = chat_id) (messages w))
           \<and> sorted (map m_timestamp (ms @ rest))
           \<and> (\<forall>a\<in>set ms. \<forall>b\<in>set rest. m_timestamp a \<le> m_timestamp b)
           \<and> map m_timestamp ms2 = map m_timestamp ms"
proof -
  let ?sel = "filter (\<lambda>m. m_chat_id m = chat_id)"
  let ?all = "sort_key m_timestamp (?sel (messages w))"
  let ?ms = "find_messages_asc w chat_id 1000"
  let ?ms2 = "find_messages_asc w2 chat_id 1000"
  let ?rest = "drop 1000 ?all"
  have g1: "get_messages w now credentials chat_id = (Inr ?ms, w)"
    using tok by (simp add: get_messages_def)
  have g2: "get_messages w2 now credentials chat_id = (Inr ?ms2, w2)"
    using tok by (simp add: get_messages_def)
  have sa: "sorted (map m_timestamp ?all)"
    by (rule sorted_sort_key)
  hence s: "sorted (map m_timestamp ?ms)"
    unfolding find_messages_asc_def take_map [symmetric] by (rule sorted_wrt_take)
  have l: "length ?ms = min 1000 (length (?sel (messages w)))"
    by (simp add: find_messages_asc_def min.commute)
  have "set ?ms \<subseteq> set ?all"
    unfolding find_messages_asc_def by (rule set_take_subset)
  hence m: "set ?ms \<subseteq> {m \<in> set (messages w). m_chat_id m = chat_id}"
    by auto
  have whole: "?ms @ ?rest = ?all"
    by (simp add: find_messages_asc_def)
  have ex: "mset (?ms @ ?rest) = mset (?sel (messages w))"
    unfolding whole by simp
  have sr: "sorted (map m_timestamp (?ms @ ?rest))"
    unfolding whole by (rule sa)
  have o: "\<forall>a\<in>set ?ms. \<forall>b\<in>set ?rest. m_timestamp a \<le> m_timestamp b"
    unfolding find_messages_asc_def using sa by (rule sorted_take_before_drop)
  have "mset (?sel (messages w2)) = mset (?sel (messages w))"
    using perm by (metis mset_filter)
  hence "map m_timestamp (sort_key m_timestamp (?sel (messages w2)))
         = map m_timestamp (sort_key m_timestamp (?sel (messages w)))"
    by (rule map_sort_key_mset)
  hence p: "map m_timestamp ?ms2 = map m_timestamp ?ms"
    by (simp only: find_messages_asc_def take_map [symmetric])
  from g1 g2 s l m ex sr o p show ?thesis by blast
qed

lemma ex_worlds_same_messages: "mset (messages ex_world_b) = mset (messages ex_world_a)"
  by (simp add: ex_world_a_def ex_world_b_def)

lemma ex_listing_a:
  "get_messages ex_world_a 0 ex_token ''c1''
   = (Inr [ex_msg ''m2'' ''c1'' ''sebastian'' ''y'' 2, ex_msg ''m1'' ''c1'' ''user'' ''x'' 5,
           ex_msg ''m4'' ''c1'' ''user'' ''w'' 9], ex_world_a)"
  by (simp add: get_messages_def ex_token_valid find_messages_asc_def ex_world_a_def ex_msg_def)

lemma ex_listing_b:
  "get_messages ex_world_b 0 ex_token ''c1''
   = (Inr [ex_msg ''m2'' ''c1'' ''sebastian'' ''y'' 2, ex_msg ''m1'' ''c1'' ''user'' ''x'' 5,
           ex_msg ''m4'' ''c1'' ''user'' ''w'' 9], ex_world_b)"
  by (simp add: get_messages_def ex_token_valid find_messages_asc_def ex_world_b_def ex_msg_def)

theorem get_messages_ascending_capped_witness:
  "verify_token 0 ex_token = Inr \<lparr>p_user_id = ''u1'', p_is_admin = False\<rparr>
   \<and> mset (messages ex_world_b) = mset (messages ex_world_a)
   \<and> get_messages ex_world_a 0 ex_token ''c1''
       = (Inr [ex_msg ''m2'' ''c1'' ''sebastian'' ''y'' 2, ex_msg ''m1'' ''c1'' ''user'' ''x'' 5,
               ex_msg ''m4'' ''c1'' ''user'' ''w'' 9], ex_world_a)
   \<and> get_messages ex_world_b 0 ex_token ''c1''
       = (Inr [ex_msg ''m2'' ''c1'' ''sebastian'' ''y'' 2, ex_msg ''m1'' ''c1'' ''user'' ''x'' 5,
               ex_msg ''m4'' ''c1'' ''user'' ''w'' 9], ex_world_b)
   \<and> (\<exists>ms ms2 rest. get_messages ex_world_a 0 ex_token ''c1'' = (Inr ms, ex_world_a)
           \<and> get_messages ex_world_b 0 ex_token ''c1'' = (Inr ms2, ex_world_b)
           \<and> sorted (map m_timestamp ms)
           \<and> length ms = min 1000 (length (filter (\<lambda>m. m_chat_id m = ''c1'') (messages ex_world_a)))
           \<and> set ms \<subseteq> {m \<in> set (messages ex_world_a). m_chat_id m = ''c1''}
           \<and> mset (ms @ rest) = mset (filter (\<lambda>m. m_chat_id m = ''c1'') (messages ex_world_a))
           \<and> sorted (map m_timestamp (ms @ rest))
           \<and> (\<forall>a\<in>set ms. \<forall>b\<in>set rest. m_timestamp a \<le> m_timestamp b)
           \<and> map m_timestamp ms2 = map m_timestamp ms)"
  using ex_token_valid ex_worlds_same_messages ex_listing_a ex_listing_b
    get_messages_ascending_capped [OF ex_token_valid ex_worlds_same_messages, of "''c1''"]
  by (intro conjI)

subsection \<open>Store queries\<close>

lemma find_one_Some_P: "find_one P xs = Some x \<Longrightarrow> P x"
  by (auto simp: find_one_def find_Some_iff)

lemma find_one_update_one:
  "find_one P xs = Some x \<Longrightarrow> P (f x) \<Longrightarrow> find_one P (update_one P f xs) = Some (f x)"
  unfolding find_one_def by (induction xs) (auto split: if_splits)

lemma update_one_undo:
  "find_one P xs = Some x \<Longrightarrow> P (f x) \<Longrightarrow> g (f x) = x \<Longrightarrow>
   update_one P g (update_one P f xs) = xs"
  unfolding find_one_def by (induction xs) (auto split: if_splits)

lemma ex_admin_token_valid:
  "verify_token 0 ex_admin_token = Inr \<lparr>p_user_id = ''a1'', p_is_admin = True\<rparr>"
  by (simp add: ex_admin_token_def create_token_def jwt_encode_def verify_token_def
      jwt_decode_def)

subsection \<open>Handoff toggle\<close>

text \<open>
  Claim C4. For an existing chat and administrator tokens, the first toggle answers with the
  negated flag and stores it; a second toggle answers with the original flag and leaves the
  store exactly as it was before the first.
\<close>

theorem toggle_twice_restores:
  assumes tok1: "verify_token now1 credentials1 = Inr usr1" and adm1: "p_is_admin usr1"
      and tok2: "verify_token now2 credentials2 = Inr usr2" and adm2: "p_is_admin usr2"
      and found: "find_one (\<lambda>c. c_id c = chat_id) (chats w) = Some cht"
  shows "\<exists>w1. toggle_admin_active w now1 credentials1 chat_id = (Inr (\<not> c_admin_active cht), w1)
           \<and> find_one (\<lambda>c. c_id c = chat_id) (chats w1)
               = Some (cht\<lparr>c_admin_active := \<not> c_admin_active cht\<rparr>)
           \<and> toggle_admin_active w1 now2 credentials2 chat_id = (Inr (c_admin_active cht), w)"
proof -
  let ?P = "\<lambda>c. c_id c = chat_id"
  let ?f = "\<lambda>c. c\<lparr>c_admin_active := \<not> c_admin_active cht\<rparr>"
  let ?g = "\<lambda>c. c\<lparr>c_admin_active := c_admin_active cht\<rparr>"
  let ?w1 = "w\<lparr>chats := update_one ?P ?f (chats w)\<rparr>"
  have id: "c_id cht = chat_id"
    using found by (rule find_one_Some_P)
  have t1: "toggle_admin_active w now1 credentials1 chat_id = (Inr (\<not> c_admin_active cht), ?w1)"
    using tok1 adm1 found by (simp add: toggle_admin_active_def Let_def)
  have f1: "find_one ?P (chats ?w1) = Some (?f cht)"
    using found id by (simp add: find_one_update_one)
  have same: "cht\<lparr>c_admin_active := c_admin_active cht\<rparr> = cht"
    by (cases cht) simp
  have undo: "update_one ?P ?g (update_one ?P ?f (chats w)) = chats w"
    by (rule update_one_undo [OF found]) (simp_all add: id same)
  have t2: "toggle_admin_active ?w1 now2 credentials2 chat_id = (Inr (c_admin_active cht), w)"
    using tok2 adm2 f1 undo by (simp add: toggle_admin_active_def Let_def)
  from t1 f1 t2 show ?thesis by blast
qed

lemma ex_found_c2:
  "find_one (\<lambda>c. c_id c = ''c2'') (chats ex_world_c) = Some (ex_chat ''c2'' ''u3'' True)"
  by (simp add: find_one_def ex_world_c_def ex_chat_def)

theorem toggle_twice_restores_witness:
  "\<exists>w1. toggle_admin_active ex_world_c 0 ex_admin_token ''c2'' = (Inr False, w1)
           \<and> find_one (\<lambda>c. c_id c = ''c2'') (chats w1) = Some (ex_chat ''c2'' ''u3'' False)
           \<and> toggle_admin_active w1 5 ex_admin_token ''c2'' = (Inr True, ex_world_c)"
proof -
  have a: "verify_token 5 ex_admin_token = Inr \<lparr>p_user_id = ''a1'', p_is_admin = True\<rparr>"
    by (simp add: ex_admin_token_def create_token_def jwt_encode_def verify_token_def
        jwt_decode_def)
  have b: "p_is_admin \<lparr>p_user_id = ''a1'', p_is_admin = True\<rparr>"
    by simp
  show ?thesis
    using toggle_twice_restores [OF ex_admin_token_valid b a b ex_found_c2]
    by (simp add: ex_chat_def)
qed

subsection \<open>Routing of inbound messages\<close>

lemma send_message_routing:
  assumes tok: "verify_token now credentials = Inr usr"
      and found: "find_one (\<lambda>c. c_id c = chat_id) (chats w) = Some cht"
  shows "\<exists>um replies w1.
            send_message w now credentials chat_id msg um_uuid um_now upd_now model bm_uuid bm_now
              = (Inr True, w1)
          \<and> messages w1 = messages w @ um # replies
          \<and> m_chat_id um = chat_id \<and> m_sender um = ''user''
          \<and> m_content um = mc_content msg \<and> m_message_type um = mc_message_type msg
          \<and> (if c_admin_active cht then replies = []
              else \<exists>bm. replies = [bm] \<and> m_chat_id bm = chat_id \<and> m_sender bm = ''sebastian''
                     \<and> \<not> m_is_admin_response bm)"
proof -
  let ?um = "\<lparr>m_id = um_uuid, m_chat_id = chat_id, m_sender = ''user'',
              m_content = mc_content msg, m_message_type = mc_message_type msg,
              m_image_url = None, m_timestamp = um_now, m_is_admin_response = False\<rparr>"
  obtain r w1 where eq:
    "send_message w now credentials chat_id msg um_uuid um_now upd_now model bm_uuid bm_now = (r, w1)"
    by (cases "send_message w now credentials chat_id msg um_uuid um_now upd_now model bm_uuid bm_now")
  have r: "r = Inr True"
    using eq tok found by (auto simp: send_message_def Let_def split: if_splits)
  have "\<exists>replies. messages w1 = messages w @ ?um # replies
          \<and> (if c_admin_active cht then replies = []
              else \<exists>bm. replies = [bm] \<and> m_chat_id bm = chat_id \<and> m_sender bm = ''sebastian''
                     \<and> \<not> m_is_admin_response bm)"
    using eq tok found by (auto simp: send_message_def Let_def split: if_splits)
  then obtain replies where
    "messages w1 = messages w @ ?um # replies"
    "if c_admin_active cht then replies = []
     else \<exists>bm. replies = [bm] \<and> m_chat_id bm = chat_id \<and> m_sender bm = ''sebastian''
            \<and> \<not> m_is_admin_response bm"
    by blast
  with eq r show ?thesis
    by (intro exI [where x = ?um] exI [where x = replies] exI [where x = w1]) simp
qed

lemma upload_image_routing:
  assumes tok: "verify_token now credentials = Inr usr"
      and found: "find_one (\<lambda>c. c_id c = chat_id) (chats w) = Some cht"
      and img: "startswith (uf_content_type file) ''image/''"
      and name: "valid_file_name (file_uuid @ ''.'' @ file_extension (uf_filename file))"
  shows "\<exists>um replies url w1.
            upload_image w now credentials chat_id file caption file_uuid um_uuid um_now upd_now
              model bm_uuid bm_now = (Inr (True, url), w1)
          \<and> messages w1 = messages w @ um # replies
          \<and> m_chat_id um = chat_id \<and> m_sender um = ''user''
          \<and> m_message_type um = ''image'' \<and> m_image_url um = Some url
          \<and> (if c_admin_active cht then replies = []
              else \<exists>bm. replies = [bm] \<and> m_chat_id bm = chat_id \<and> m_sender bm = ''sebastian''
                     \<and> \<not> m_is_admin_response bm)"
proof -
  let ?url = "''/uploads/'' @ file_uuid @ ''.'' @ file_extension (uf_filename file)"
  let ?um = "\<lparr>m_id = um_uuid, m_chat_id = chat_id, m_sender = ''user'',
              m_content = (if caption \<noteq> [] then caption else caption_placeholder),
              m_message_type = ''image'',
              m_image_url = Some ?url, m_timestamp = um_now, m_is_admin_response = False\<rparr>"
  obtain r w1 where eq:
    "upload_image w now credentials chat_id file caption file_uuid um_uuid um_now upd_now
       model bm_uuid bm_now = (r, w1)"
    by (cases "upload_image w now credentials chat_id file caption file_uuid um_uuid um_now upd_now
       model bm_uuid bm_now")
  have r: "r = Inr (True, ?url)"
    using eq tok found img name by (auto simp: upload_image_def Let_def split: if_splits)
  have "\<exists>replies. messages w1 = messages w @ ?um # replies
          \<and> (if c_admin_active cht then replies = []
              else \<exists>bm. replies = [bm] \<and> m_chat_id bm = chat_id \<and> m_sender bm = ''sebastian''
                     \<and> \<not> m_is_admin_response bm)"
    using eq tok found img name by (auto simp: upload_image_def Let_def split: if_splits)
  then obtain replies where
    "messages w1 = messages w @ ?um # replies"
    "if c_admin_active cht then replies = []
     else \<exists>bm. replies = [bm] \<and> m_chat_id bm = chat_id \<and> m_sender bm = ''sebastian''
            \<and> \<not> m_is_admin_response bm"
    by blast
  with eq r show ?thesis
    by (intro exI [where x = ?um] exI [where x = replies] exI [where x = ?url] exI [where x = w1])
       simp
qed

text \<open>
  An upload whose file name the file system refuses ends before the chat is looked up:
  status 500, and the store and the uploads directory are as they were.
\<close>

lemma upload_image_refused_name:
  assumes tok: "verify_token now credentials = Inr usr"
      and img: "startswith (uf_content_type file) ''image/''"
      and name: "\<not> valid_file_name (file_uuid @ ''.'' @ file_extension (uf_filename file))"
  shows "upload_image w now credentials chat_id file caption file_uuid um_uuid um_now upd_now
           model bm_uuid bm_now = (Inl (HTTPException 500 ''Internal Server Error''), w)"
  using tok img name by (simp add: upload_image_def Let_def)

lemma ex_slash_file_refused:
  "upload_image ex_world_c 0 ex_token ''c1'' ex_slash_file ''look'' ''f1'' ''n1'' 9 9 echo_model
     ''b1'' 10 = (Inl (HTTPException 500 ''Internal Server Error''), ex_world_c)"
  by (rule upload_image_refused_name [OF ex_token_valid])
     (simp_all add: startswith_def ex_slash_file_def file_extension_def valid_file_name_def)

text \<open>
  Claim C1. A user message sent to an existing chat with a valid token (a text through
  \<open>send_message\<close>, an image with an image content type through \<open>upload_image\<close>, once
  its file has been written, that is, when the file system accepts the file name) is
  always appended to the stored messages and the request succeeds. After it comes exactly
  one further message, with sender "sebastian" and \<open>is_admin_response = False\<close>, when
  the chat's \<open>admin_active\<close> flag read by the request is false, and nothing when the flag
  is true.
\<close>

theorem user_message_then_reply_iff_automatic:
  assumes tok: "verify_token now credentials = Inr usr"
      and found: "find_one (\<lambda>c. c_id c = chat_id) (chats w) = Some cht"
      and img: "startswith (uf_content_type file) ''image/''"
      and name: "valid_file_name (file_uuid @ ''.'' @ file_extension (uf_filename file))"
  shows "(\<exists>um replies w1.
            send_message w now credentials chat_id msg um_uuid um_now upd_now model bm_uuid bm_now
              = (Inr True, w1)
          \<and> messages w1 = messages w @ um # replies
          \<and> m_chat_id um = chat_id \<and> m_sender um = ''user''
          \<and> m_content um = mc_content msg \<and> m_message_type um = mc_message_type msg
          \<and> (if c_admin_active cht then replies = []
              else \<exists>bm. replies = [bm] \<and> m_chat_id bm = chat_id \<and> m_sender bm = ''sebastian''
                     \<and> \<not> m_is_admin_response bm))
       \<and> (\<exists>um replies url w1.
            upload_image w now credentials chat_id file caption file_uuid um_uuid um_now upd_now
              model bm_uuid bm_now = (Inr (True, url), w1)
          \<and> messages w1 = messages w @ um # replies
          \<and> m_chat_id um = chat_id \<and> m_sender um = ''user''
          \<and> m_message_type um = ''image'' \<and> m_image_url um = Some url
          \<and> (if c_admin_active cht then replies = []
              else \<exists>bm. replies = [bm] \<and> m_chat_id bm = chat_id \<and> m_sender bm = ''sebastian''
                     \<and> \<not> m_is_admin_response bm))"
  using send_message_routing [OF tok found] upload_image_routing [OF tok found img name]
  by (intro conjI)

lemma ex_found_c1:
  "find_one (\<lambda>c. c_id c = ''c1'') (chats ex_world_c) = Some (ex_chat ''c1'' ''u2'' False)"
  by (simp add: find_one_def ex_world_c_def ex_chat_def)

lemma ex_file_is_image: "startswith (uf_content_type ex_file) ''image/''"
  by (simp add: startswith_def ex_file_def)

lemma ex_file_name_valid: "valid_file_name (''f1'' @ ''.'' @ file_extension (uf_filename ex_file))"
  by (simp add: valid_file_name_def file_extension_def ex_file_def)

theorem user_message_then_reply_iff_automatic_witness:
  "(\<exists>um bm w1.
      send_message ex_world_c 0 ex_token ''c1'' ex_message_create ''n1'' 9 9 echo_model ''b1'' 10
        = (Inr True, w1)
      \<and> messages w1 = messages ex_world_c @ [um, bm]
      \<and> m_sender um = ''user'' \<and> m_content um = ''hi''
      \<and> m_sender bm = ''sebastian'' \<and> \<not> m_is_admin_response bm)
   \<and> (\<exists>um url w1.
      upload_image ex_world_c 0 ex_token ''c2'' ex_file ''look'' ''f1'' ''n1'' 9 9 echo_model ''b1'' 10
        = (Inr (True, url), w1)
      \<and> messages w1 = messages ex_world_c @ [um]
      \<and> m_sender um = ''user'' \<and> m_message_type um = ''image'')"
proof -
  have a: "\<exists>um bm w1.
      send_message ex_world_c 0 ex_token ''c1'' ex_message_create ''n1'' 9 9 echo_model ''b1'' 10
        = (Inr True, w1)
      \<and> messages w1 = messages ex_world_c @ [um, bm]
      \<and> m_sender um = ''user'' \<and> m_content um = ''hi''
      \<and> m_sender bm = ''sebastian'' \<and> \<not> m_is_admin_response bm"
    using user_message_then_reply_iff_automatic [OF ex_token_valid ex_found_c1 ex_file_is_image
        ex_file_name_valid,
      where msg = ex_message_create and um_uuid = "''n1''" and um_now = 9 and upd_now = 9
        and model = echo_model and bm_uuid = "''b1''" and bm_now = 10, THEN conjunct1]
    by (auto simp: ex_chat_def ex_message_create_def)
  have b: "\<exists>um url w1.
      upload_image ex_world_c 0 ex_token ''c2'' ex_file ''look'' ''f1'' ''n1'' 9 9 echo_model ''b1'' 10
        = (Inr (True, url), w1)
      \<and> messages w1 = messages ex_world_c @ [um]
      \<and> m_sender um = ''user'' \<and> m_message_type um = ''image''"
    using user_message_then_reply_iff_automatic [OF ex_token_valid ex_found_c2 ex_file_is_image
        ex_file_name_valid,
      where um_uuid = "''n1''" and um_now = 9 and upd_now = 9
        and model = echo_model and bm_uuid = "''b1''" and bm_now = 10
        and caption = "''look''", THEN conjunct2]
    by (auto simp: ex_chat_def)
  from a b show ?thesis by (intro conjI)
qed

subsection \<open>The fallback of the persona response generator\<close>









subsection \<open>The context handed to the generator\<close>

lemma ex_world_d_reply:
  "m_content (last (messages (snd
      (send_message ex_world_d 0 ex_token ''c1'' ex_message_create ''n1'' 9 9 echo_model
         ''b1'' 10))))
   = strip (''Contesto della conversazione:'' @ [CHR 0x0A] @
     ''Sebastian: four'' @ [CHR 0x0A] @
     ''Utente: five'' @ [CHR 0x0A] @
     ''Sebastian: six'' @ [CHR 0x0A] @
     ''Utente: seven'' @ [CHR 0x0A] @
     ''Sebastian: eight'' @ [CHR 0x0A] @
     ''Utente: hi'' @ [CHR 0x0A, CHR 0x0A] @
     ''Nuovo messaggio: hi'')"
  by (simp add: send_message_def Let_def ex_world_d_def ex_token_valid find_one_def ex_chat_def
      find_messages_desc_def ex_msg_def get_sebastian_ai_response_def echo_model_def
      ex_message_create_def)

lemma ex_world_d_prompt_stripped:
  "strip (''Contesto della conversazione:'' @ [CHR 0x0A] @
     ''Sebastian: four'' @ [CHR 0x0A] @
     ''Utente: five'' @ [CHR 0x0A] @
     ''Sebastian: six'' @ [CHR 0x0A] @
     ''Utente: seven'' @ [CHR 0x0A] @
     ''Sebastian: eight'' @ [CHR 0x0A] @
     ''Utente: hi'' @ [CHR 0x0A, CHR 0x0A] @
     ''Nuovo messaggio: hi'')
   = ''Contesto della conversazione:'' @ [CHR 0x0A] @
     ''Sebastian: four'' @ [CHR 0x0A] @
     ''Utente: five'' @ [CHR 0x0A] @
     ''Sebastian: six'' @ [CHR 0x0A] @
     ''Utente: seven'' @ [CHR 0x0A] @
     ''Sebastian: eight'' @ [CHR 0x0A] @
     ''Utente: hi'' @ [CHR 0x0A, CHR 0x0A] @
     ''Nuovo messaggio: hi''"
  by (simp add: strip_def rstrip_def lstrip.simps find_one_def startswith_def whitespace_def)

lemma ex_world_c_reply:
  "m_content (last (messages (snd
      (send_message ex_world_c 0 ex_token ''c1'' ex_message_create ''n1'' 9 9 echo_model
         ''b1'' 10))))
   = strip (''Contesto della conversazione:'' @ [CHR 0x0A] @
     ''Utente: hi'' @ [CHR 0x0A, CHR 0x0A] @
     ''Nuovo messaggio: hi'')"
  by (simp add: send_message_def Let_def ex_world_c_def ex_token_valid find_one_def ex_chat_def
      find_messages_desc_def ex_msg_def get_sebastian_ai_response_def echo_model_def
      ex_message_create_def)

lemma ex_world_c_prompt_stripped:
  "strip (''Contesto della conversazione:'' @ [CHR 0x0A] @
     ''Utente: hi'' @ [CHR 0x0A, CHR 0x0A] @
     ''Nuovo messaggio: hi'')
   = ''Contesto della conversazione:'' @ [CHR 0x0A] @
     ''Utente: hi'' @ [CHR 0x0A, CHR 0x0A] @
     ''Nuovo messaggio: hi''"
  by (simp add: strip_def rstrip_def lstrip.simps find_one_def startswith_def whitespace_def)

text \<open>
  White space of Unicode is removed from a reply like that of ASCII: here a no-break space
  (U+00A0) in front, and a line feed and an ideographic space (U+3000) behind.
\<close>

lemma strip_unicode_white_space:
  "strip ([CHR 0xC2, CHR 0xA0] @ '' Molto bene. '' @ [CHR 0x0A, CHR 0xE3, CHR 0x80, CHR 0x80])
   = ''Molto bene.''"
  by (simp add: strip_def rstrip_def lstrip.simps find_one_def startswith_def whitespace_def)

text \<open>
  Claim C2 (evaluation of the code; the claim does not hold). A chat holds eight messages
  "one" to "eight" with timestamps 1 to 8 and the user sends "hi" at time 9. The hosted
  model answers with the prompt it is given, so the stored reply shows the context that
  \<open>send_message\<close> assembled: the five prior messages "four" to "eight" followed by the
  message just sent, and not the six prior messages "three" to "eight". The slice
  \<^verbatim>\<open>recent_messages[:-1]\<close> of a list sorted newest first drops the oldest message.
\<close>

theorem context_holds_sent_message_not_sixth_prior:
  "m_content (last (messages (snd
      (send_message ex_world_d 0 ex_token ''c1'' ex_message_create ''n1'' 9 9 echo_model
         ''b1'' 10))))
   = ''Contesto della conversazione:'' @ [CHR 0x0A] @
     ''Sebastian: four'' @ [CHR 0x0A] @
     ''Utente: five'' @ [CHR 0x0A] @
     ''Sebastian: six'' @ [CHR 0x0A] @
     ''Utente: seven'' @ [CHR 0x0A] @
     ''Sebastian: eight'' @ [CHR 0x0A] @
     ''Utente: hi'' @ [CHR 0x0A, CHR 0x0A] @
     ''Nuovo messaggio: hi''"
  by (rule trans [OF ex_world_d_reply ex_world_d_prompt_stripped])

lemma context_with_one_prior_message:
  "m_content (last (messages (snd
      (send_message ex_world_c 0 ex_token ''c1'' ex_message_create ''n1'' 9 9 echo_model
         ''b1'' 10))))
   = ''Contesto della conversazione:'' @ [CHR 0x0A] @
     ''Utente: hi'' @ [CHR 0x0A, CHR 0x0A] @
     ''Nuovo messaggio: hi''"
  by (rule trans [OF ex_world_c_reply ex_world_c_prompt_stripped])

text \<open>
  The same holds in general: when the chat already holds a message and the message just
  appended is newer than every stored message, the history that \<open>send_message\<close> and
  \<open>upload_image\<close> compute from the ten newest messages ends with the message just sent.
\<close>

lemma insort_key_greatest:
  "\<forall>y\<in>set ys. f y < f x \<Longrightarrow> f a < f x \<Longrightarrow>
   insort_key f a (ys @ [x]) = insort_key f a ys @ [x]"
  by (induction ys) auto

lemma sort_key_snoc_greatest:
  fixes f :: "'a \<Rightarrow> nat"
  assumes "\<forall>y\<in>set xs. f y < f x"
  shows "sort_key f (xs @ [x]) = sort_key f xs @ [x]"
  using assms
proof (induction xs)
  case Nil
  show ?case by simp
next
  case (Cons a xs)
  hence "sort_key f (xs @ [x]) = sort_key f xs @ [x]" by simp
  moreover have "\<forall>y\<in>set (sort_key f xs). f y < f x" using Cons.prems by simp
  moreover have "f a < f x" using Cons.prems by simp
  ultimately show ?case by (simp add: insort_key_greatest)
qed

lemma newest_first_slice_keeps_sent_message:
  assumes app: "messages w1 = messages w @ [um]"
      and cid: "m_chat_id um = chat_id"
      and newest: "\<forall>m\<in>set (messages w). m_timestamp m < m_timestamp um"
      and prior: "filter (\<lambda>m. m_chat_id m = chat_id) (messages w) \<noteq> []"
  shows "last (rev (butlast (find_messages_desc w1 chat_id 10))) = um"
proof -
  let ?old = "filter (\<lambda>m. m_chat_id m = chat_id) (messages w)"
  let ?zs = "rev (sort_key m_timestamp ?old)"
  have "sort_key m_timestamp (?old @ [um]) = sort_key m_timestamp ?old @ [um]"
    using newest by (intro sort_key_snoc_greatest) simp
  hence d: "find_messages_desc w1 chat_id 10 = um # take 9 ?zs"
    by (simp add: find_messages_desc_def app cid)
  have "length ?zs = length ?old" by simp
  hence "?zs \<noteq> []" using prior by (metis length_0_conv)
  hence "take 9 ?zs \<noteq> []" by simp
  hence "butlast (um # take 9 ?zs) = um # butlast (take 9 ?zs)" by simp
  thus ?thesis by (simp add: d)
qed

subsection \<open>No ownership check on a chat\<close>

text \<open>
  Claim C9. With a valid token whose user is not an administrator and does not own the
  chat, listing the chat's messages succeeds and returns them, and sending a message to
  the chat succeeds and appends it.
\<close>

theorem foreign_chat_read_and_write:
  assumes tok: "verify_token now credentials = Inr usr"
      and found: "find_one (\<lambda>c. c_id c = chat_id) (chats w) = Some cht"
      and foreign: "c_user_id cht \<noteq> p_user_id usr"
      and plain: "\<not> p_is_admin usr"
  shows "get_messages w now credentials chat_id = (Inr (find_messages_asc w chat_id 1000), w)
       \<and> (\<exists>um replies w1.
            send_message w now credentials chat_id msg um_uuid um_now upd_now model bm_uuid bm_now
              = (Inr True, w1)
          \<and> messages w1 = messages w @ um # replies
          \<and> m_chat_id um = chat_id \<and> m_content um = mc_content msg)"
proof
  show "get_messages w now credentials chat_id = (Inr (find_messages_asc w chat_id 1000), w)"
    using tok by (simp add: get_messages_def)
next
  show "\<exists>um replies w1.
            send_message w now credentials chat_id msg um_uuid um_now upd_now model bm_uuid bm_now
              = (Inr True, w1)
          \<and> messages w1 = messages w @ um # replies
          \<and> m_chat_id um = chat_id \<and> m_content um = mc_content msg"
    using send_message_routing [OF tok found, of msg um_uuid um_now upd_now model bm_uuid bm_now]
    by blast
qed

theorem foreign_chat_read_and_write_witness:
  "verify_token 0 ex_token = Inr \<lparr>p_user_id = ''u1'', p_is_admin = False\<rparr>
   \<and> find_one (\<lambda>c. c_id c = ''c1'') (chats ex_world_c) = Some (ex_chat ''c1'' ''u2'' False)
   \<and> c_user_id (ex_chat ''c1'' ''u2'' False) \<noteq> ''u1''
   \<and> get_messages ex_world_c 0 ex_token ''c1''
       = (Inr [ex_msg ''m1'' ''c1'' ''sebastian'' ''hello'' 1], ex_world_c)
   \<and> (\<exists>um replies w1.
        send_message ex_world_c 0 ex_token ''c1'' ex_message_create ''n1'' 9 9 echo_model
          ''b1'' 10 = (Inr True, w1)
      \<and> messages w1 = messages ex_world_c @ um # replies
      \<and> m_chat_id um = ''c1'' \<and> m_content um = ''hi'')"
proof -
  have f: "c_user_id (ex_chat ''c1'' ''u2'' False)
           \<noteq> p_user_id \<lparr>p_user_id = ''u1'', p_is_admin = False\<rparr>"
    by (simp add: ex_chat_def)
  have p: "\<not> p_is_admin \<lparr>p_user_id = ''u1'', p_is_admin = False\<rparr>"
    by simp
  have l: "find_messages_asc ex_world_c ''c1'' 1000 = [ex_msg ''m1'' ''c1'' ''sebastian'' ''hello'' 1]"
    by (simp add: find_messages_asc_def ex_world_c_def ex_msg_def)
  show ?thesis
    using foreign_chat_read_and_write [OF ex_token_valid ex_found_c1 f p,
        where msg = ex_message_create and um_uuid = "''n1''" and um_now = 9 and upd_now = 9
          and model = echo_model and bm_uuid = "''b1''" and bm_now = 10]
      ex_token_valid ex_found_c1 f
    by (simp add: l ex_message_create_def)
qed

subsection \<open>Upload to a chat that does not exist\<close>

text \<open>
  Claim C10. An upload with an image content type to a chat id that is not in the store,
  under a file name that the file system accepts, answers 404 "Chat not found", after the
  file's bytes were written to the uploads directory under a name that starts with the
  drawn id and a dot; no message is appended, the hosted model is not called and the chats
  and users are unchanged.
\<close>

theorem upload_to_missing_chat_writes_file:
  assumes tok: "verify_token now credentials = Inr usr"
      and img: "startswith (uf_content_type file) ''image/''"
      and name: "valid_file_name (file_uuid @ ''.'' @ file_extension (uf_filename file))"
      and missing: "find_one (\<lambda>c. c_id c = chat_id) (chats w) = None"
  shows "\<exists>name w1.
            upload_image w now credentials chat_id file caption file_uuid um_uuid um_now upd_now
              model bm_uuid bm_now = (Inl (HTTPException 404 ''Chat not found''), w1)
          \<and> name = file_uuid @ ''.'' @ file_extension (uf_filename file)
          \<and> take (length file_uuid + 1) name = file_uuid @ ''.''
          \<and> uploads w1 = (uploads w)(name \<mapsto> uf_content file)
          \<and> uploads w1 name = Some (uf_content file)
          \<and> messages w1 = messages w \<and> chats w1 = chats w \<and> users w1 = users w
          \<and> llm_calls w1 = llm_calls w"
proof -
  let ?name = "file_uuid @ ''.'' @ file_extension (uf_filename file)"
  let ?w1 = "w\<lparr>uploads := (uploads w)(?name \<mapsto> uf_content file)\<rparr>"
  have "upload_image w now credentials chat_id file caption file_uuid um_uuid um_now upd_now
          model bm_uuid bm_now = (Inl (HTTPException 404 ''Chat not found''), ?w1)"
    using tok img name missing by (simp add: upload_image_def Let_def)
  moreover have "take (length file_uuid + 1) ?name = file_uuid @ ''.''"
    by simp
  ultimately show ?thesis
    by (intro exI [where x = ?name] exI [where x = ?w1]) simp
qed

lemma ex_missing_chat: "find_one (\<lambda>c. c_id c = ''zz'') (chats ex_world_c) = None"
  by (simp add: find_one_def ex_world_c_def ex_chat_def)

theorem upload_to_missing_chat_writes_file_witness:
  "uploads ex_world_c ''f1.png'' = None
   \<and> (\<exists>w1. upload_image ex_world_c 0 ex_token ''zz'' ex_file ''look'' ''f1'' ''n1'' 9 9
              echo_model ''b1'' 10 = (Inl (HTTPException 404 ''Chat not found''), w1)
          \<and> uploads w1 ''f1.png'' = Some ''PNGDATA''
          \<and> messages w1 = messages ex_world_c)"
proof -
  have e: "file_extension (uf_filename ex_file) = ''png''" "uf_content ex_file = ''PNGDATA''"
    by (simp_all add: file_extension_def ex_file_def)
  have n: "uploads ex_world_c ''f1.png'' = None"
    by (simp add: ex_world_c_def)
  show ?thesis
    using upload_to_missing_chat_writes_file [OF ex_token_valid ex_file_is_image
        ex_file_name_valid ex_missing_chat,
      where caption = "''look''" and um_uuid = "''n1''" and um_now = 9
        and upd_now = 9 and model = echo_model and bm_uuid = "''b1''" and bm_now = 10] n
    by (auto simp: e)
qed

subsection \<open>Image upload\<close>

lemma split_chr_nonempty: "split_chr c s \<noteq> []"
  by (induction s) (auto split: list.splits)

lemma join_Cons: "ps \<noteq> [] \<Longrightarrow> join sep (p # ps) = p @ sep @ join sep ps"
  by (cases ps) simp_all

lemma join_split_chr: "join [c] (split_chr c s) = s"
proof (induction s)
  case Nil
  show ?case by simp
next
  case (Cons x s)
  obtain y ys where sp: "split_chr c s = y # ys"
    using split_chr_nonempty [of c s] by (cases "split_chr c s") auto
  show ?case
  proof (cases "x = c")
    case True
    with Cons show ?thesis by (simp add: join_Cons split_chr_nonempty)
  next
    case False
    with Cons sp show ?thesis by (cases ys) simp_all
  qed
qed

lemma split_chr_pieces: "p \<in> set (split_chr c s) \<Longrightarrow> c \<notin> set p"
proof (induction s arbitrary: p)
  case Nil
  thus ?case by simp
next
  case (Cons x s)
  obtain y ys where sp: "split_chr c s = y # ys"
    using split_chr_nonempty [of c s] by (cases "split_chr c s") auto
  show ?case
  proof (cases "x = c")
    case True
    with Cons show ?thesis by auto
  next
    case False
    with Cons.prems sp have "p = x # y \<or> p \<in> set ys" by simp
    moreover have "c \<notin> set y" using Cons.IH sp by simp
    moreover have "\<And>q. q \<in> set ys \<Longrightarrow> c \<notin> set q" using Cons.IH sp by simp
    ultimately show ?thesis using False by auto
  qed
qed

lemma join_snoc: "ps \<noteq> [] \<Longrightarrow> join sep (ps @ [p]) = join sep ps @ sep @ p"
proof (induction ps)
  case Nil
  thus ?case by simp
next
  case (Cons q qs)
  show ?case
  proof (cases qs)
    case Nil
    thus ?thesis by simp
  next
    case (Cons r rs)
    with Cons.IH show ?thesis by simp
  qed
qed

lemma last_split_chr_no_sep: "c \<notin> set (last (split_chr c s))"
  by (rule split_chr_pieces [of _ c s]) (simp add: split_chr_nonempty)

lemma last_split_chr_suffix:
  assumes "c \<in> set s"
  shows "\<exists>pre. s = pre @ c # last (split_chr c s)"
proof -
  let ?ps = "split_chr c s"
  have ne: "?ps \<noteq> []" by (rule split_chr_nonempty)
  hence dec: "?ps = butlast ?ps @ [last ?ps]" by simp
  have "butlast ?ps \<noteq> []"
  proof
    assume "butlast ?ps = []"
    with dec have "?ps = [last ?ps]" by simp
    hence "join [c] ?ps = last ?ps" by (metis join.simps(2))
    hence "s = last ?ps" by (simp add: join_split_chr)
    with assms last_split_chr_no_sep [of c s] show False by simp
  qed
  hence "join [c] (butlast ?ps @ [last ?ps]) = join [c] (butlast ?ps) @ [c] @ last ?ps"
    by (rule join_snoc)
  with dec have "s = join [c] (butlast ?ps) @ c # last ?ps"
    by (metis join_split_chr append_Cons append_Nil)
  thus ?thesis by blast
qed

text \<open>
  Claim C7. With a valid token, an upload whose declared content type does not start with
  "image/" answers 400 "Only image files are allowed" and changes nothing. An upload that
  succeeds has an image content type; the message appended for it has kind "image" and
  carries the returned reference "/uploads/<id>.<ext>", which is not empty and under whose
  file name the bytes are stored; \<open>ext\<close> is the part of the original file name after its
  last dot (and has no dot) when the name has a dot, and "jpg" otherwise; the content is the
  caption, or the placeholder (not empty) when the caption is empty.
\<close>

theorem upload_validates_and_stores_image:
  assumes tok: "verify_token now credentials = Inr usr"
      and ok: "upload_image w now credentials chat_id file caption file_uuid um_uuid um_now
                 upd_now model bm_uuid bm_now = (Inr r, w1)"
  shows "(startswith (uf_content_type file0) ''image/''
          \<or> upload_image w0 now credentials chat0 file0 caption0 file_uuid0 um_uuid0 um_now0
               upd_now0 model0 bm_uuid0 bm_now0
             = (Inl (HTTPException 400 ''Only image files are allowed''), w0))
       \<and> startswith (uf_content_type file) ''image/''
       \<and> (\<exists>um ext.
             r = (True, ''/uploads/'' @ file_uuid @ ''.'' @ ext)
           \<and> snd r \<noteq> []
           \<and> uploads w1 (file_uuid @ ''.'' @ ext) = Some (uf_content file)
           \<and> (if CHR ''.'' \<in> set (uf_filename file)
               then (\<exists>pre. uf_filename file = pre @ ''.'' @ ext) \<and> CHR ''.'' \<notin> set ext
               else ext = ''jpg'')
           \<and> messages w1 ! length (messages w) = um
           \<and> length (messages w) < length (messages w1)
           \<and> m_chat_id um = chat_id \<and> m_sender um = ''user''
           \<and> m_message_type um = ''image''
           \<and> m_image_url um = Some (snd r)
           \<and> m_content um = (if caption = [] then caption_placeholder else caption)
           \<and> caption_placeholder \<noteq> [])"
proof (intro conjI)
  show "startswith (uf_content_type file0) ''image/''
          \<or> upload_image w0 now credentials chat0 file0 caption0 file_uuid0 um_uuid0 um_now0
               upd_now0 model0 bm_uuid0 bm_now0
             = (Inl (HTTPException 400 ''Only image files are allowed''), w0)"
    using tok by (simp add: upload_image_def)
next
  show img: "startswith (uf_content_type file) ''image/''"
    using tok ok by (auto simp: upload_image_def split: if_splits)
  define ext where
    "ext = (if CHR ''.'' \<in> set (uf_filename file)
            then last (split_chr CHR ''.'' (uf_filename file)) else ''jpg'')"
  define url where "url = ''/uploads/'' @ file_uuid @ ''.'' @ ext"
  define um where
    "um = \<lparr>m_id = um_uuid, m_chat_id = chat_id, m_sender = ''user'',
            m_content = (if caption \<noteq> [] then caption else caption_placeholder),
            m_message_type = ''image'',
            m_image_url = Some url, m_timestamp = um_now, m_is_admin_response = False\<rparr>"
  have r: "r = (True, url)"
    using tok ok img unfolding url_def ext_def
    by (auto simp: upload_image_def Let_def file_extension_def split: if_splits option.splits)
  have up: "uploads w1 (file_uuid @ ''.'' @ ext) = Some (uf_content file)"
    using tok ok img unfolding ext_def
    by (auto simp: upload_image_def Let_def file_extension_def split: if_splits option.splits)
  have "\<exists>replies. messages w1 = messages w @ um # replies"
    using tok ok img unfolding um_def url_def ext_def
    by (auto simp: upload_image_def Let_def file_extension_def split: if_splits option.splits)
  then obtain replies where m1: "messages w1 = messages w @ um # replies"
    by blast
  have at: "messages w1 ! length (messages w) = um"
    by (simp add: m1)
  have len: "length (messages w) < length (messages w1)"
    by (simp add: m1)
  have ex: "if CHR ''.'' \<in> set (uf_filename file)
            then (\<exists>pre. uf_filename file = pre @ ''.'' @ ext) \<and> CHR ''.'' \<notin> set ext
            else ext = ''jpg''"
    using last_split_chr_suffix [of "CHR ''.''" "uf_filename file"]
      last_split_chr_no_sep [of "CHR ''.''" "uf_filename file"]
    unfolding ext_def by simp
  have ph: "caption_placeholder \<noteq> []"
    by (simp add: caption_placeholder_def)
  have u1: "m_chat_id um = chat_id" "m_sender um = ''user''" "m_message_type um = ''image''"
    "m_image_url um = Some url"
    "m_content um = (if caption = [] then caption_placeholder else caption)"
    by (simp_all add: um_def)
  have nz: "url \<noteq> []"
    by (simp add: url_def)
  have "r = (True, ''/uploads/'' @ file_uuid @ ''.'' @ ext)
           \<and> snd r \<noteq> []
           \<and> uploads w1 (file_uuid @ ''.'' @ ext) = Some (uf_content file)
           \<and> (if CHR ''.'' \<in> set (uf_filename file)
               then (\<exists>pre. uf_filename file = pre @ ''.'' @ ext) \<and> CHR ''.'' \<notin> set ext
               else ext = ''jpg'')
           \<and> messages w1 ! length (messages w) = um
           \<and> length (messages w) < length (messages w1)
           \<and> m_chat_id um = chat_id \<and> m_sender um = ''user''
           \<and> m_message_type um = ''image''
           \<and> m_image_url um = Some (snd r)
           \<and> m_content um = (if caption = [] then caption_placeholder else caption)
           \<and> caption_placeholder \<noteq> []"
    using r up ex at len ph u1 nz by (simp add: url_def)
  thus "\<exists>um ext.
             r = (True, ''/uploads/'' @ file_uuid @ ''.'' @ ext)
           \<and> snd r \<noteq> []
           \<and> uploads w1 (file_uuid @ ''.'' @ ext) = Some (uf_content file)
           \<and> (if CHR ''.'' \<in> set (uf_filename file)
               then (\<exists>pre. uf_filename file = pre @ ''.'' @ ext) \<and> CHR ''.'' \<notin> set ext
               else ext = ''jpg'')
           \<and> messages w1 ! length (messages w) = um
           \<and> length (messages w) < length (messages w1)
           \<and> m_chat_id um = chat_id \<and> m_sender um = ''user''
           \<and> m_message_type um = ''image''
           \<and> m_image_url um = Some (snd r)
           \<and> m_content um = (if caption = [] then caption_placeholder else caption)
           \<and> caption_placeholder \<noteq> []"
    by blast
qed

lemma ex_upload_ok:
  "upload_image ex_world_c 0 ex_token ''c2'' ex_file [] ''f1'' ''n1'' 9 9 echo_model ''b1'' 10
   = (Inr (True, ''/uploads/f1.png''),
      snd (upload_image ex_world_c 0 ex_token ''c2'' ex_file [] ''f1'' ''n1'' 9 9 echo_model
             ''b1'' 10))"
  by (simp add: upload_image_def Let_def ex_token_valid startswith_def ex_file_def ex_found_c2
      ex_chat_def file_extension_def valid_file_name_def)

theorem upload_validates_and_stores_image_witness:
  "upload_image ex_world_c 0 ex_token ''c2'' ex_text_file ''look'' ''f2'' ''n2'' 9 9 echo_model
     ''b2'' 10 = (Inl (HTTPException 400 ''Only image files are allowed''), ex_world_c)
   \<and> (\<exists>um w1.
        upload_image ex_world_c 0 ex_token ''c2'' ex_file [] ''f1'' ''n1'' 9 9 echo_model
          ''b1'' 10 = (Inr (True, ''/uploads/f1.png''), w1)
      \<and> uploads w1 ''f1.png'' = Some ''PNGDATA''
      \<and> messages w1 ! length (messages ex_world_c) = um
      \<and> m_message_type um = ''image''
      \<and> m_image_url um = Some ''/uploads/f1.png''
      \<and> m_content um = caption_placeholder)"
proof -
  note inst = upload_validates_and_stores_image [OF ex_token_valid ex_upload_ok,
      where ?file0.0 = ex_text_file and ?w0.0 = ex_world_c and ?chat0.0 = "''c2''"
        and ?caption0.0 = "''look''" and ?file_uuid0.0 = "''f2''" and ?um_uuid0.0 = "''n2''"
        and ?um_now0.0 = 9 and ?upd_now0.0 = 9 and ?model0.0 = echo_model
        and ?bm_uuid0.0 = "''b2''" and ?bm_now0.0 = 10]
  have nt: "\<not> startswith (uf_content_type ex_text_file) ''image/''"
    by (simp add: startswith_def ex_text_file_def)
  have a: "upload_image ex_world_c 0 ex_token ''c2'' ex_text_file ''look'' ''f2'' ''n2'' 9 9
             echo_model ''b2'' 10
           = (Inl (HTTPException 400 ''Only image files are allowed''), ex_world_c)"
    using inst nt by blast
  have b: "\<exists>um. uploads (snd (upload_image ex_world_c 0 ex_token ''c2'' ex_file [] ''f1'' ''n1''
                     9 9 echo_model ''b1'' 10)) ''f1.png'' = Some ''PNGDATA''
      \<and> messages (snd (upload_image ex_world_c 0 ex_token ''c2'' ex_file [] ''f1'' ''n1''
                     9 9 echo_model ''b1'' 10)) ! length (messages ex_world_c) = um
      \<and> m_message_type um = ''image''
      \<and> m_image_url um = Some ''/uploads/f1.png''
      \<and> m_content um = caption_placeholder"
    using inst by (auto simp: ex_file_def)
  from a b ex_upload_ok show ?thesis by blast
qed

subsection \<open>Registration and administrator login\<close>

lemma find_one_append_Some:
  "find_one P xs = Some x \<Longrightarrow> find_one P (xs @ ys) = Some x"
  unfolding find_one_def by (induction xs) (auto split: if_splits)

lemma find_one_snoc_new:
  "find_one P xs = None \<Longrightarrow> P u \<Longrightarrow> find_one P (xs @ [u]) = Some u"
  unfolding find_one_def by (induction xs) (auto split: if_splits)

lemma token_roundtrip:
  "verify_token now (create_token uid adm) = Inr \<lparr>p_user_id = uid, p_is_admin = adm\<rparr>"
  by (simp add: create_token_def jwt_encode_def verify_token_def jwt_decode_def)

text \<open>
  Claim C5. Registering a username that the store does not hold succeeds and appends one
  user whose id is the drawn id and whose password hash is \<open>hash_password\<close> of the
  password (the library digest of the password, a function of the password alone); the
  user id carried by the returned token, also as read back by \<open>verify_token\<close>, is that
  user's id. In any later store, whose users extend those after the registration, a
  registration with the same username answers 400 "Username already exists" and leaves the
  store as it is.
\<close>

theorem register_then_duplicate_fails:
  assumes fresh: "find_one (\<lambda>u. u_username u = uc_username usr) (users w) = None"
      and later: "users w2 = users (snd (register w sha usr uid t)) @ extra"
  shows "\<exists>resp w1 new_user.
            register w sha usr uid t = (Inr resp, w1)
          \<and> users w1 = users w @ [new_user]
          \<and> u_id new_user = uid
          \<and> u_username new_user = uc_username usr
          \<and> u_password_hash new_user = hash_password sha (uc_password usr)
          \<and> p_user_id (t_payload (ar_token resp)) = u_id new_user
          \<and> verify_token now (ar_token resp)
              = Inr \<lparr>p_user_id = u_id new_user, p_is_admin = False\<rparr>
          \<and> register w2 sha \<lparr>uc_username = uc_username usr, uc_password = pw2\<rparr> uid2 t2
              = (Inl (HTTPException 400 ''Username already exists''), w2)"
proof -
  define new_user where
    "new_user = \<lparr>u_id = uid, u_username = uc_username usr,
                  u_password_hash = hash_password sha (uc_password usr),
                  u_is_admin = False, u_created_at = t\<rparr>"
  define resp where
    "resp = \<lparr>ar_token = create_token uid False, ar_id = uid,
              ar_username = uc_username usr, ar_is_admin = False\<rparr>"
  define w1 where "w1 = w\<lparr>users := users w @ [new_user]\<rparr>"
  have reg: "register w sha usr uid t = (Inr resp, w1)"
    using fresh by (simp add: register_def Let_def resp_def w1_def new_user_def)
  have us: "users w1 = users w @ [new_user]"
    by (simp add: w1_def)
  have nu: "u_id new_user = uid" "u_username new_user = uc_username usr"
    "u_password_hash new_user = hash_password sha (uc_password usr)"
    by (simp_all add: new_user_def)
  have tk: "p_user_id (t_payload (ar_token resp)) = u_id new_user"
    by (simp add: resp_def new_user_def create_token_def jwt_encode_def)
  have vt: "verify_token now (ar_token resp) = Inr \<lparr>p_user_id = u_id new_user, p_is_admin = False\<rparr>"
    by (simp add: resp_def new_user_def token_roundtrip)
  have "find_one (\<lambda>u. u_username u = uc_username usr) (users w1) = Some new_user"
    unfolding us using fresh by (rule find_one_snoc_new) (simp add: nu)
  hence "find_one (\<lambda>u. u_username u = uc_username usr) (users w2) = Some new_user"
    using later reg by (simp add: find_one_append_Some)
  hence dup: "register w2 sha \<lparr>uc_username = uc_username usr, uc_password = pw2\<rparr> uid2 t2
              = (Inl (HTTPException 400 ''Username already exists''), w2)"
    by (simp add: register_def)
  from reg us nu tk vt dup show ?thesis by blast
qed

lemma ex_no_alice:
  "find_one (\<lambda>u. u_username u = uc_username ex_alice) (users ex_world_c) = None"
  by (simp add: find_one_def ex_world_c_def)

theorem register_then_duplicate_fails_witness:
  "find_one (\<lambda>u. u_username u = ''alice'') (users ex_world_c) = None
   \<and> (\<exists>resp w1.
         register ex_world_c ex_sha ex_alice ''id1'' 3 = (Inr resp, w1)
       \<and> users w1 = [\<lparr>u_id = ''id1'', u_username = ''alice'',
                       u_password_hash = ''digest-of-pw1'', u_is_admin = False,
                       u_created_at = 3\<rparr>]
       \<and> p_user_id (t_payload (ar_token resp)) = ''id1''
       \<and> register w1 ex_sha \<lparr>uc_username = ''alice'', uc_password = ''other''\<rparr> ''id2'' 4
           = (Inl (HTTPException 400 ''Username already exists''), w1))"
proof -
  have l: "users (snd (register ex_world_c ex_sha ex_alice ''id1'' 3))
           = users (snd (register ex_world_c ex_sha ex_alice ''id1'' 3)) @ []"
    by simp
  have e: "register ex_world_c ex_sha ex_alice ''id1'' 3
           = (fst (register ex_world_c ex_sha ex_alice ''id1'' 3),
              snd (register ex_world_c ex_sha ex_alice ''id1'' 3))"
    by simp
  have u: "users (snd (register ex_world_c ex_sha ex_alice ''id1'' 3))
           = [\<lparr>u_id = ''id1'', u_username = ''alice'', u_password_hash = ''digest-of-pw1'',
               u_is_admin = False, u_created_at = 3\<rparr>]"
    by (simp add: register_def Let_def find_one_def ex_world_c_def ex_alice_def
        hash_password_def ex_sha_def)
  have n: "find_one (\<lambda>u. u_username u = ''alice'') (users ex_world_c) = None"
    using ex_no_alice by (simp add: ex_alice_def)
  obtain resp w1 where
    r: "register ex_world_c ex_sha ex_alice ''id1'' 3 = (Inr resp, w1)" and
    p: "p_user_id (t_payload (ar_token resp)) = ''id1''" and
    d: "register (snd (register ex_world_c ex_sha ex_alice ''id1'' 3)) ex_sha
          \<lparr>uc_username = uc_username ex_alice, uc_password = ''other''\<rparr> ''id2'' 4
        = (Inl (HTTPException 400 ''Username already exists''),
           snd (register ex_world_c ex_sha ex_alice ''id1'' 3))"
    using register_then_duplicate_fails [OF ex_no_alice l,
        where now = 0 and ?pw2.0 = "''other''" and ?uid2.0 = "''id2''" and ?t2.0 = 4]
    by auto
  have w: "snd (register ex_world_c ex_sha ex_alice ''id1'' 3) = w1"
    using r by simp
  from r p d u n show ?thesis
    unfolding w by (auto simp: ex_alice_def)
qed

text \<open>
  Claim C6, as stated, fails (evaluation of the code). In a store without users, the name
  "admin" is registered through \<open>register\<close> with a password of the registrant's
  choice, which creates a user without the administrator flag. The first successful
  administrator login that follows creates no record: it leaves the store as it is and
  answers with the id of the registered user and a token carrying the administrator flag.
\<close>

theorem first_admin_login_reuses_registered_admin:
  "users ex_world_c = []
   \<and> register ex_world_c ex_sha ex_mallory ''m1'' 1
       = (Inr \<lparr>ar_token = create_token ''m1'' False, ar_id = ''m1'',
                ar_username = ''admin'', ar_is_admin = False\<rparr>, ex_world_g)
   \<and> admin_login ex_world_g ex_sha ex_admin_login ''a1'' 2
       = (Inr \<lparr>ar_token = create_token ''m1'' True, ar_id = ''m1'',
                ar_username = ''admin'', ar_is_admin = True\<rparr>, ex_world_g)
   \<and> users ex_world_g = [ex_mallory_user]
   \<and> u_id ex_mallory_user = ''m1''
   \<and> \<not> u_is_admin ex_mallory_user"
  by (simp add: register_def admin_login_def Let_def find_one_def ex_world_c_def ex_world_g_def
      ex_mallory_def ex_mallory_user_def ex_admin_login_def hash_password_def ex_sha_def)

text \<open>
  Claim C6, amended. A successful administrator login is a login with the pair "admin" /
  "sebastian_admin": every request with that pair succeeds and every other request answers
  401 and leaves the store as it is. On success the response and the token carry the
  administrator flag. The store gains one user, named "admin" with the administrator flag
  and the drawn id, exactly when it held no user named "admin"; otherwise it is unchanged
  and the id answered is that of the first user so named, whatever its flag. In any later
  store, whose users extend those after the login, a further login answers with the same
  response (the same user id and token) and adds nothing.
\<close>

theorem admin_login_reserved_pair_lazy_record:
  assumes ok: "admin_login w sha usr uid t = (Inr resp, w1)"
      and later: "users w2 = users w1 @ extra"
  shows "uc_username usr = ''admin'' \<and> uc_password usr = ''sebastian_admin''
       \<and> ar_is_admin resp
       \<and> verify_token now (ar_token resp) = Inr \<lparr>p_user_id = ar_id resp, p_is_admin = True\<rparr>
       \<and> users w1 =
           (case find_one (\<lambda>u. u_username u = ''admin'') (users w) of
              Some existing \<Rightarrow> users w
            | None \<Rightarrow> users w @ [\<lparr>u_id = uid, u_username = ''admin'',
                                   u_password_hash = hash_password sha ''sebastian_admin'',
                                   u_is_admin = True, u_created_at = t\<rparr>])
       \<and> ar_id resp =
           (case find_one (\<lambda>u. u_username u = ''admin'') (users w) of
              Some existing \<Rightarrow> u_id existing
            | None \<Rightarrow> uid)
       \<and> admin_login w2 sha usr uid2 t2 = (Inr resp, w2)
       \<and> (\<exists>r0 v0. admin_login w0 sha \<lparr>uc_username = ''admin'', uc_password = ''sebastian_admin''\<rparr>
                     uid0 t0 = (Inr r0, v0))
       \<and> ((uc_username other = ''admin'' \<and> uc_password other = ''sebastian_admin'')
           \<or> admin_login w0 sha other uid0 t0
              = (Inl (HTTPException 401 ''Invalid admin credentials''), w0))"
proof -
  have pair: "uc_username usr = ''admin'' \<and> uc_password usr = ''sebastian_admin''"
    using ok by (auto simp: admin_login_def split: if_splits)
  define adm where
    "adm = \<lparr>u_id = uid, u_username = ''admin'',
             u_password_hash = hash_password sha ''sebastian_admin'',
             u_is_admin = True, u_created_at = t\<rparr>"
  have shape: "\<exists>a. find_one (\<lambda>u. u_username u = ''admin'') (users w1) = Some a
          \<and> resp = \<lparr>ar_token = create_token (u_id a) True, ar_id = u_id a,
                     ar_username = u_username a, ar_is_admin = True\<rparr>
          \<and> users w1 = (case find_one (\<lambda>u. u_username u = ''admin'') (users w) of
                          Some existing \<Rightarrow> users w | None \<Rightarrow> users w @ [adm])
          \<and> u_id a = (case find_one (\<lambda>u. u_username u = ''admin'') (users w) of
                          Some existing \<Rightarrow> u_id existing | None \<Rightarrow> uid)"
  proof (cases "find_one (\<lambda>u. u_username u = ''admin'') (users w)")
    case None
    hence "find_one (\<lambda>u. u_username u = ''admin'') (users w @ [adm]) = Some adm"
      by (rule find_one_snoc_new) (simp add: adm_def)
    thus ?thesis
      using ok pair None by (auto simp: admin_login_def Let_def adm_def)
  next
    case (Some a)
    thus ?thesis
      using ok pair by (auto simp: admin_login_def)
  qed
  then obtain a where
    fa: "find_one (\<lambda>u. u_username u = ''admin'') (users w1) = Some a" and
    rs: "resp = \<lparr>ar_token = create_token (u_id a) True, ar_id = u_id a,
                 ar_username = u_username a, ar_is_admin = True\<rparr>" and
    us: "users w1 = (case find_one (\<lambda>u. u_username u = ''admin'') (users w) of
                       Some existing \<Rightarrow> users w | None \<Rightarrow> users w @ [adm])" and
    ia: "u_id a = (case find_one (\<lambda>u. u_username u = ''admin'') (users w) of
                     Some existing \<Rightarrow> u_id existing | None \<Rightarrow> uid)"
    by blast
  have adm_flag: "ar_is_admin resp"
    by (simp add: rs)
  have rid: "ar_id resp = (case find_one (\<lambda>u. u_username u = ''admin'') (users w) of
                             Some existing \<Rightarrow> u_id existing | None \<Rightarrow> uid)"
    using ia by (simp add: rs)
  have vt: "verify_token now (ar_token resp) = Inr \<lparr>p_user_id = ar_id resp, p_is_admin = True\<rparr>"
    by (simp add: rs token_roundtrip)
  have "find_one (\<lambda>u. u_username u = ''admin'') (users w2) = Some a"
    using fa later by (simp add: find_one_append_Some)
  hence again: "admin_login w2 sha usr uid2 t2 = (Inr resp, w2)"
    using pair by (simp add: admin_login_def rs)
  have always: "\<exists>r0 v0. admin_login w0 sha \<lparr>uc_username = ''admin'', uc_password = ''sebastian_admin''\<rparr>
                     uid0 t0 = (Inr r0, v0)"
    by (cases "find_one (\<lambda>u. u_username u = ''admin'') (users w0)")
       (simp_all add: admin_login_def Let_def)
  have only: "(uc_username other = ''admin'' \<and> uc_password other = ''sebastian_admin'')
           \<or> admin_login w0 sha other uid0 t0
              = (Inl (HTTPException 401 ''Invalid admin credentials''), w0)"
    by (auto simp: admin_login_def)
  from pair adm_flag vt us rid again always only show ?thesis
    unfolding adm_def by blast
qed

lemma ex_first_admin_login:
  "admin_login ex_world_c ex_sha ex_admin_login ''a1'' 1 = (Inr ex_admin_resp, ex_world_e)"
  by (simp add: admin_login_def Let_def find_one_def ex_world_c_def ex_admin_login_def
      ex_admin_resp_def ex_world_e_def ex_admin_user_def hash_password_def ex_sha_def)

lemma ex_users_grew: "users ex_world_f = users ex_world_e @ [ex_bob]"
  by (simp add: ex_world_e_def ex_world_f_def)

lemma ex_reused_admin_login:
  "admin_login ex_world_g ex_sha ex_admin_login ''a4'' 4
   = (Inr \<lparr>ar_token = create_token ''m1'' True, ar_id = ''m1'',
            ar_username = ''admin'', ar_is_admin = True\<rparr>, ex_world_g)"
  by (simp add: admin_login_def find_one_def ex_world_c_def ex_world_g_def ex_mallory_user_def
      ex_admin_login_def)

lemma ex_users_same: "users ex_world_g = users ex_world_g @ []"
  by simp

theorem admin_login_reserved_pair_lazy_record_witness:
  "admin_login ex_world_c ex_sha ex_admin_login ''a1'' 1 = (Inr ex_admin_resp, ex_world_e)
   \<and> users ex_world_c = []
   \<and> users ex_world_e = [ex_admin_user]
   \<and> u_is_admin ex_admin_user
   \<and> ar_id ex_admin_resp = u_id ex_admin_user
   \<and> p_is_admin (t_payload (ar_token ex_admin_resp))
   \<and> users ex_world_f = [ex_admin_user, ex_bob]
   \<and> admin_login ex_world_f ex_sha ex_admin_login ''a2'' 2 = (Inr ex_admin_resp, ex_world_f)
   \<and> admin_login ex_world_c ex_sha \<lparr>uc_username = ''admin'', uc_password = ''guess''\<rparr> ''a3'' 3
       = (Inl (HTTPException 401 ''Invalid admin credentials''), ex_world_c)
   \<and> users ex_world_g = [ex_mallory_user]
   \<and> admin_login ex_world_g ex_sha ex_admin_login ''a4'' 4
       = (Inr \<lparr>ar_token = create_token ''m1'' True, ar_id = ''m1'',
                ar_username = ''admin'', ar_is_admin = True\<rparr>, ex_world_g)
   \<and> admin_login ex_world_g ex_sha ex_admin_login ''a5'' 5
       = (Inr \<lparr>ar_token = create_token ''m1'' True, ar_id = ''m1'',
                ar_username = ''admin'', ar_is_admin = True\<rparr>, ex_world_g)"
proof -
  note inst = admin_login_reserved_pair_lazy_record [OF ex_first_admin_login ex_users_grew,
      where ?uid2.0 = "''a2''" and ?t2.0 = 2 and ?w0.0 = ex_world_c
        and other = "\<lparr>uc_username = ''admin'', uc_password = ''guess''\<rparr>"
        and ?uid0.0 = "''a3''" and ?t0.0 = 3 and now = 0]
  note reuse = admin_login_reserved_pair_lazy_record [OF ex_reused_admin_login ex_users_same,
      where ?uid2.0 = "''a5''" and ?t2.0 = 5 and ?w0.0 = ex_world_c
        and other = "\<lparr>uc_username = ''admin'', uc_password = ''guess''\<rparr>"
        and ?uid0.0 = "''a3''" and ?t0.0 = 3 and now = 0]
  have a: "admin_login ex_world_f ex_sha ex_admin_login ''a2'' 2 = (Inr ex_admin_resp, ex_world_f)"
    using inst by blast
  have b: "admin_login ex_world_c ex_sha \<lparr>uc_username = ''admin'', uc_password = ''guess''\<rparr>
             ''a3'' 3 = (Inl (HTTPException 401 ''Invalid admin credentials''), ex_world_c)"
    using inst by simp
  have c: "users ex_world_c = []" "users ex_world_e = [ex_admin_user]"
    "users ex_world_f = [ex_admin_user, ex_bob]" "u_is_admin ex_admin_user"
    "ar_id ex_admin_resp = u_id ex_admin_user"
    "p_is_admin (t_payload (ar_token ex_admin_resp))"
    "users ex_world_g = [ex_mallory_user]"
    by (simp_all add: ex_world_c_def ex_world_e_def ex_world_f_def ex_world_g_def
        ex_admin_user_def ex_admin_resp_def create_token_def jwt_encode_def)
  have d: "admin_login ex_world_g ex_sha ex_admin_login ''a5'' 5
       = (Inr \<lparr>ar_token = create_token ''m1'' True, ar_id = ''m1'',
                ar_username = ''admin'', ar_is_admin = True\<rparr>, ex_world_g)"
    using reuse by blast
  from ex_first_admin_login ex_reused_admin_login a b c d show ?thesis by simp
qed

subsection \<open>Users are only ever added\<close>

text \<open>
  No handler removes or rewrites a user: registration and administrator login append, the
  others leave the users as they are. Later stores therefore extend earlier ones, which is
  the form in which the theorems on registration and administrator login speak of them.
\<close>

lemma users_only_grow:
  "\<exists>extra. users (snd (register w sha uc uid t)) = users w @ extra"
  "\<exists>extra. users (snd (admin_login w sha uc uid t)) = users w @ extra"
  "users (snd (login w sha uc)) = users w"
  "users (snd (get_or_create_chat w now cr uid t)) = users w"
  "users (snd (get_messages w now cr cid)) = users w"
  "users (snd (send_message w now cr cid msg uu ut upd model bu bt)) = users w"
  "users (snd (upload_image w now cr cid file cap fu uu ut upd model bu bt)) = users w"
  "users (snd (get_all_chats w now cr)) = users w"
  "users (snd (admin_respond w now cr cid content uu ut upd)) = users w"
  "users (snd (toggle_admin_active w now cr cid)) = users w"
  by (auto simp: register_def admin_login_def login_def get_or_create_chat_def get_messages_def
      send_message_def upload_image_def get_all_chats_def admin_respond_def
      toggle_admin_active_def Let_def split: option.splits sum.splits if_splits)

end
